theory Spec2Isabelle
  imports Complex_Main "HOL-Library.Word"
begin

section \<open>JavaScript numbers\<close>

text \<open>
  A JavaScript \<^verbatim>\<open>number\<close>: a finite value, one of the two infinities, or NaN.
  Finite values are modelled as exact reals (rounding is not modelled), and the two
  zeros are identified; every divisor in the code is a non-negative count, so a zero
  divisor is always \<^verbatim>\<open>+0\<close>.
\<close>

datatype number = NaN | NegInf | Num real | PosInf

text \<open>\<^verbatim>\<open>a + b\<close>\<close>

fun js_add :: "number \<Rightarrow> number \<Rightarrow> number" where
  "js_add (Num a) (Num b) = Num (a + b)"
| "js_add NaN _ = NaN"
| "js_add _ NaN = NaN"
| "js_add PosInf NegInf = NaN"
| "js_add NegInf PosInf = NaN"
| "js_add PosInf _ = PosInf"
| "js_add _ PosInf = PosInf"
| "js_add NegInf _ = NegInf"
| "js_add _ NegInf = NegInf"

text \<open>\<^verbatim>\<open>a / b\<close>, where a zero divisor is \<^verbatim>\<open>+0\<close>\<close>

fun js_div :: "number \<Rightarrow> number \<Rightarrow> number" where
  "js_div (Num a) (Num b) =
     (if b = 0 then (if a = 0 then NaN else if 0 < a then PosInf else NegInf)
      else Num (a / b))"
| "js_div NaN _ = NaN"
| "js_div _ NaN = NaN"
| "js_div (Num a) _ = Num 0"
| "js_div PosInf (Num b) = (if 0 \<le> b then PosInf else NegInf)"
| "js_div NegInf (Num b) = (if 0 \<le> b then NegInf else PosInf)"
| "js_div _ _ = NaN"

text \<open>\<^verbatim>\<open>a < b\<close> and \<^verbatim>\<open>a > b\<close>: false as soon as one side is NaN\<close>

fun js_lt :: "number \<Rightarrow> number \<Rightarrow> bool" where
  "js_lt NaN _ = False"
| "js_lt _ NaN = False"
| "js_lt (Num a) (Num b) = (a < b)"
| "js_lt PosInf _ = False"
| "js_lt _ PosInf = True"
| "js_lt _ NegInf = False"
| "js_lt NegInf _ = True"

definition js_gt :: "number \<Rightarrow> number \<Rightarrow> bool" where
  "js_gt a b = js_lt b a"

text \<open>\<^verbatim>\<open>Math.min(a, b)\<close> and \<^verbatim>\<open>Math.max(a, b)\<close>: NaN as soon as one argument is NaN\<close>

fun Math_min :: "number \<Rightarrow> number \<Rightarrow> number" where
  "Math_min NaN _ = NaN"
| "Math_min _ NaN = NaN"
| "Math_min a b = (if js_lt b a then b else a)"

fun Math_max :: "number \<Rightarrow> number \<Rightarrow> number" where
  "Math_max NaN _ = NaN"
| "Math_max _ NaN = NaN"
| "Math_max a b = (if js_lt a b then b else a)"

text \<open>\<^verbatim>\<open>Math.floor(len / 8)\<close> and the like, for a non-negative finite quotient\<close>

definition Math_floor :: "real \<Rightarrow> nat" where
  "Math_floor r = nat \<lfloor>r\<rfloor>"

section \<open>The Web Audio platform\<close>

text \<open>
  The part of the browser the module talks to. Audio elements, audio contexts and audio
  nodes are identified by numbers. The platform keeps
  \<^item> whether \<^verbatim>\<open>window.AudioContext || window.webkitAudioContext\<close> exists,
  \<^item> whether a user gesture has happened (the autoplay policy),
  \<^item> the state of every context created,
  \<^item> for every media element that was tapped, its MediaElementAudioSourceNode,
  \<^item> the connections between nodes, in the order they were made,
  \<^item> for every gain node the context that created it,
  \<^item> the \<^verbatim>\<open>setValueAtTime\<close> events on gain parameters, newest first,
  \<^item> the value that every gain parameter holds (what \<^verbatim>\<open>gain.value\<close> reads), newest first,
  \<^item> the bytes the analyser currently reports.
\<close>

type_synonym byte = "8 word"

datatype ctx_state = Suspended | Running | Closed

datatype exn = TypeError | InvalidStateError

record platform =
  supported :: bool
  gesture :: bool
  fresh :: nat
  ctx_states :: "(nat \<times> ctx_state) list"
  tapped :: "(nat \<times> nat) list"
  edges :: "(nat \<times> nat) list"
  gain_owner :: "(nat \<times> nat) list"
  gain_events :: "(nat \<times> real \<times> real) list"
  gain_values :: "(nat \<times> real) list"
  currentTime :: real
  freq_bytes :: "byte list"
  time_bytes :: "byte list"

definition state_of :: "platform \<Rightarrow> nat \<Rightarrow> ctx_state option" where
  "state_of p c = map_of (ctx_states p) c"

text \<open>
  \<^verbatim>\<open>new (window.AudioContext || window.webkitAudioContext)()\<close>: a TypeError when neither
  constructor exists. A new context is suspended until a user gesture has happened.
  The context \<open>c\<close> comes with its destination node, \<open>Suc c\<close>.
\<close>

definition destination :: "nat \<Rightarrow> nat" where
  "destination c = Suc c"

definition new_AudioContext :: "platform \<Rightarrow> exn + nat \<times> platform" where
  "new_AudioContext p =
     (if \<not> supported p then Inl TypeError
      else Inr (fresh p,
        p\<lparr>fresh := fresh p + 2,
          ctx_states := (fresh p, if gesture p then Running else Suspended) # ctx_states p\<rparr>))"

text \<open>\<^verbatim>\<open>audioContext.resume()\<close>: takes effect only after a user gesture\<close>

definition resume :: "nat \<Rightarrow> platform \<Rightarrow> platform" where
  "resume c p =
     (if state_of p c = Some Suspended \<and> gesture p
      then p\<lparr>ctx_states := (c, Running) # ctx_states p\<rparr> else p)"

text \<open>\<^verbatim>\<open>audioContext.close()\<close>\<close>

definition close :: "nat \<Rightarrow> platform \<Rightarrow> platform" where
  "close c p = p\<lparr>ctx_states := (c, Closed) # ctx_states p\<rparr>"

text \<open>\<^verbatim>\<open>audioContext.createAnalyser()\<close> and \<^verbatim>\<open>audioContext.createGain()\<close>\<close>

definition createAnalyser :: "platform \<Rightarrow> nat \<times> platform" where
  "createAnalyser p = (fresh p, p\<lparr>fresh := fresh p + 1\<rparr>)"

definition createGain :: "nat \<Rightarrow> platform \<Rightarrow> nat \<times> platform" where
  "createGain c p =
     (fresh p, p\<lparr>fresh := fresh p + 1, gain_owner := (fresh p, c) # gain_owner p\<rparr>)"

text \<open>
  \<^verbatim>\<open>audioContext.createMediaElementSource(audioElement)\<close>: a TypeError for \<^verbatim>\<open>null\<close>, an
  InvalidStateError for an element that already has a source node (a media element can
  be tapped once only), a new source node otherwise.
\<close>

definition createMediaElementSource :: "nat option \<Rightarrow> platform \<Rightarrow> exn + nat \<times> platform" where
  "createMediaElementSource audioElement p =
     (case audioElement of
        None \<Rightarrow> Inl TypeError
      | Some el \<Rightarrow>
          if el \<in> fst ` set (tapped p) then Inl InvalidStateError
          else Inr (fresh p, p\<lparr>fresh := fresh p + 1, tapped := tapped p @ [(el, fresh p)]\<rparr>))"

text \<open>
  \<^verbatim>\<open>a.connect(b)\<close>: a connection that exists already is not made again.
  \<^verbatim>\<open>a.disconnect()\<close> removes every connection that leaves \<open>a\<close>.
\<close>

definition connect :: "nat \<Rightarrow> nat \<Rightarrow> platform \<Rightarrow> platform" where
  "connect a b p = (if (a, b) \<in> set (edges p) then p else p\<lparr>edges := edges p @ [(a, b)]\<rparr>)"

definition disconnect :: "nat \<Rightarrow> platform \<Rightarrow> platform" where
  "disconnect a p = p\<lparr>edges := filter (\<lambda>e. fst e \<noteq> a) (edges p)\<rparr>"

text \<open>
  \<^verbatim>\<open>analyser.getByteFrequencyData(array)\<close> and \<^verbatim>\<open>analyser.getByteTimeDomainData(array)\<close>
  overwrite the array in place: bytes the array has no room for are dropped, and cells
  beyond the analyser's data keep their content.
\<close>

definition write_bytes :: "byte list \<Rightarrow> byte list \<Rightarrow> byte list" where
  "write_bytes bytes array = take (length array) bytes @ drop (length bytes) array"

definition getByteFrequencyData :: "platform \<Rightarrow> byte list \<Rightarrow> byte list" where
  "getByteFrequencyData p array = write_bytes (freq_bytes p) array"

definition getByteTimeDomainData :: "platform \<Rightarrow> byte list \<Rightarrow> byte list" where
  "getByteTimeDomainData p array = write_bytes (time_bytes p) array"

text \<open>
  A gain parameter holds a single-precision float. \<open>float32\<close> is the float nearest to a
  real, ties to the even mantissa: the binade of the real is found by doubling or halving
  (down to the subnormal range), and the real is rounded to a multiple of the spacing of
  floats in that binade.
\<close>

fun binade_above :: "nat \<Rightarrow> real \<Rightarrow> int \<Rightarrow> int" where
  "binade_above 0 x e = e"
| "binade_above (Suc n) x e = (if x < 2 then e else binade_above n (x / 2) (e + 1))"

fun binade_below :: "nat \<Rightarrow> real \<Rightarrow> int \<Rightarrow> int" where
  "binade_below 0 x e = e"
| "binade_below (Suc n) x e = (if 1 \<le> x then e else binade_below n (2 * x) (e - 1))"

definition binade :: "real \<Rightarrow> int" where
  "binade x = (if 1 \<le> x then binade_above 127 x 0 else binade_below 126 x 0)"

definition pow2 :: "int \<Rightarrow> real" where
  "pow2 e = (if 0 \<le> e then 2 ^ nat e else 1 / 2 ^ nat (- e))"

definition round_ties_even :: "real \<Rightarrow> int" where
  "round_ties_even q =
     (let f = \<lfloor>q\<rfloor>; d = q - of_int f
      in if d < 1 / 2 then f else if 1 / 2 < d then f + 1 else if even f then f else f + 1)"

definition float32 :: "real \<Rightarrow> real" where
  "float32 x =
     (if x = 0 then 0
      else (let ulp = pow2 (binade \<bar>x\<bar> - 23)
            in of_int (round_ties_even (x / ulp)) * ulp))"

text \<open>
  \<^verbatim>\<open>gain.setValueAtTime(value, time)\<close>: a TypeError for a value that is not finite or
  beyond the range of single-precision floats; otherwise the event is put on the timeline
  of the parameter. The call does not change what the parameter holds.
\<close>

definition setValueAtTime :: "nat \<Rightarrow> number \<Rightarrow> real \<Rightarrow> platform \<Rightarrow> exn + platform" where
  "setValueAtTime g v t p =
     (case v of
        Num r \<Rightarrow>
          if \<bar>r\<bar> < 2 ^ 128 - 2 ^ 103 then Inr (p\<lparr>gain_events := (g, r, t) # gain_events p\<rparr>)
          else Inl TypeError
      | _ \<Rightarrow> Inl TypeError)"

text \<open>
  \<open>gain_level\<close> is what \<^verbatim>\<open>gain.value\<close> reads: the value the parameter holds, 1 for a new
  gain node. The parameter takes up its events when its context renders a quantum of
  audio, which only a running context does: every gain parameter of the context then
  holds the float of its newest event that is due.
\<close>

definition gain_level :: "platform \<Rightarrow> nat \<Rightarrow> real" where
  "gain_level p g = (case map_of (gain_values p) g of None \<Rightarrow> 1 | Some x \<Rightarrow> x)"

definition due_value :: "platform \<Rightarrow> nat \<Rightarrow> real option" where
  "due_value p g =
     (case filter (\<lambda>ev. fst ev = g \<and> snd (snd ev) \<le> currentTime p) (gain_events p) of
        [] \<Rightarrow> None
      | ev # _ \<Rightarrow> Some (fst (snd ev)))"

definition render_quantum :: "nat \<Rightarrow> platform \<Rightarrow> platform" where
  "render_quantum c p =
     (if state_of p c = Some Running
      then p\<lparr>gain_values :=
               map (\<lambda>ow. (fst ow, case due_value p (fst ow) of
                                      None \<Rightarrow> gain_level p (fst ow)
                                    | Some r \<Rightarrow> float32 r))
                   (filter (\<lambda>ow. snd ow = c) (gain_owner p))
               @ gain_values p\<rparr>
      else p)"

section \<open>The audio utilities module\<close>

text \<open>The module's variables; \<open>None\<close> is \<^verbatim>\<open>null\<close>.\<close>

record analyser_node =
  node_id :: nat
  fftSize :: nat
  smoothingTimeConstant :: real

record audio_utils =
  audioContext :: "nat option"
  analyser :: "analyser_node option"
  dataArray :: "byte list option"
  source :: "nat option"
  gainNode :: "nat option"

definition initial_utils :: audio_utils where
  "initial_utils =
     \<lparr>audioContext = None, analyser = None, dataArray = None, source = None, gainNode = None\<rparr>"

definition frequencyBinCount :: "analyser_node \<Rightarrow> nat" where
  "frequencyBinCount a = fftSize a div 2"

text \<open>
  The three guarded creations that open both \<^verbatim>\<open>initializeAudioContext\<close> and
  \<^verbatim>\<open>connectAnalyzer\<close>.
\<close>

definition ensure_context :: "audio_utils \<Rightarrow> platform \<Rightarrow> exn + nat \<times> audio_utils \<times> platform" where
  "ensure_context m p =
     (case audioContext m of
        Some c \<Rightarrow> Inr (c, m, p)
      | None \<Rightarrow>
          (case new_AudioContext p of
             Inl e \<Rightarrow> Inl e
           | Inr (c, p') \<Rightarrow> Inr (c, m\<lparr>audioContext := Some c\<rparr>, p')))"

definition ensure_analyser :: "audio_utils \<Rightarrow> platform \<Rightarrow> analyser_node \<times> audio_utils \<times> platform" where
  "ensure_analyser m p =
     (case analyser m of
        Some a \<Rightarrow> (a, m, p)
      | None \<Rightarrow>
          (let (n, p') = createAnalyser p;
               a = \<lparr>node_id = n, fftSize = 256, smoothingTimeConstant = 8 / 10\<rparr>
           in (a, m\<lparr>analyser := Some a\<rparr>, p')))"

definition ensure_gain ::
  "nat \<Rightarrow> audio_utils \<Rightarrow> platform \<Rightarrow> nat \<times> audio_utils \<times> platform" where
  "ensure_gain c m p =
     (case gainNode m of
        Some g \<Rightarrow> (g, m, p)
      | None \<Rightarrow> (let (n, p') = createGain c p in (n, m\<lparr>gainNode := Some n\<rparr>, p')))"

text \<open>
  \<^verbatim>\<open>x.connect(analyser); analyser.connect(gainNode); gainNode.connect(audioContext.destination)\<close>
\<close>

definition wire :: "nat \<Rightarrow> analyser_node \<Rightarrow> nat \<Rightarrow> nat \<Rightarrow> platform \<Rightarrow> platform" where
  "wire s a g c p = connect g (destination c) (connect (node_id a) g (connect s (node_id a) p))"

datatype init_result =
  Initialized nat analyser_node "byte list" nat
| NotInitialized exn

text \<open>
  \<^verbatim>\<open>initializeAudioContext(audioElement)\<close>. The whole body is in a \<^verbatim>\<open>try\<close>: an exception
  ends it where it is raised, keeping the assignments made so far.
\<close>

definition initializeAudioContext ::
  "nat option \<Rightarrow> audio_utils \<times> platform \<Rightarrow> init_result \<times> audio_utils \<times> platform" where
  "initializeAudioContext audioElement w =
     (case ensure_context (fst w) (snd w) of
        Inl e \<Rightarrow> (NotInitialized e, w)
      | Inr (c, m1, p1) \<Rightarrow>
          (let p2 = (if state_of p1 c = Some Suspended then resume c p1 else p1);
               (a, m3, p3) = ensure_analyser m1 p2;
               (g, m4, p4) = ensure_gain c m3 p3
           in if source m4 = None \<and> audioElement \<noteq> None
              then (case createMediaElementSource audioElement p4 of
                      Inl e \<Rightarrow> (NotInitialized e, m4, p4)
                    | Inr (s, p5) \<Rightarrow>
                        (let d = replicate (frequencyBinCount a) 0
                         in (Initialized c a d g,
                             m4\<lparr>source := Some s, dataArray := Some d\<rparr>, wire s a g c p5)))
              else (let d = replicate (frequencyBinCount a) 0
                    in (Initialized c a d g, m4\<lparr>dataArray := Some d\<rparr>, p4))))"

text \<open>
  \<^verbatim>\<open>connectAnalyzer(audioElement)\<close>. There is no \<^verbatim>\<open>try\<close> here, and no check that a source
  exists: an exception of the platform leaves the function.
\<close>

definition connectAnalyzer ::
  "nat option \<Rightarrow> audio_utils \<times> platform \<Rightarrow> (exn + analyser_node) \<times> audio_utils \<times> platform" where
  "connectAnalyzer audioElement w =
     (case ensure_context (fst w) (snd w) of
        Inl e \<Rightarrow> (Inl e, w)
      | Inr (c, m1, p1) \<Rightarrow>
          (let (a, m2, p2) = ensure_analyser m1 p1;
               (g, m3, p3) = ensure_gain c m2 p2
           in case createMediaElementSource audioElement p3 of
                Inl e \<Rightarrow> (Inl e, m3, p3)
              | Inr (newSource, p4) \<Rightarrow>
                  (Inr a, m3\<lparr>source := Some newSource\<rparr>, wire newSource a g c p4)))"

text \<open>
  \<^verbatim>\<open>getFrequencyData()\<close> and \<^verbatim>\<open>getTimeDomainData()\<close>: \<open>None\<close> is the \<^verbatim>\<open>null\<close> result.
  The array returned is \<^verbatim>\<open>dataArray\<close> itself, overwritten.
\<close>

definition getFrequencyData :: "audio_utils \<Rightarrow> platform \<Rightarrow> byte list option \<times> audio_utils" where
  "getFrequencyData m p =
     (if analyser m = None \<or> dataArray m = None then (None, m)
      else (let d = getByteFrequencyData p (the (dataArray m))
            in (Some d, m\<lparr>dataArray := Some d\<rparr>)))"

definition getTimeDomainData :: "audio_utils \<Rightarrow> platform \<Rightarrow> byte list option \<times> audio_utils" where
  "getTimeDomainData m p =
     (if analyser m = None \<or> dataArray m = None then (None, m)
      else (let d = getByteTimeDomainData p (the (dataArray m))
            in (Some d, m\<lparr>dataArray := Some d\<rparr>)))"

text \<open>
  \<^verbatim>\<open>setVolume(volume)\<close>. Without a gain node it warns and returns. An exception inside
  the \<^verbatim>\<open>try\<close> (reading \<^verbatim>\<open>currentTime\<close> of \<^verbatim>\<open>null\<close>, or a value that is not finite) is
  logged, and nothing is applied.
\<close>

definition setVolume :: "number \<Rightarrow> audio_utils \<times> platform \<Rightarrow> audio_utils \<times> platform" where
  "setVolume volume w =
     (case gainNode (fst w) of
        None \<Rightarrow> w
      | Some g \<Rightarrow>
          (let clampedVolume = Math_max (Num 0) (Math_min (Num 1) volume)
           in case audioContext (fst w) of
                None \<Rightarrow> w
              | Some c \<Rightarrow>
                  (case setValueAtTime g clampedVolume (currentTime (snd w)) (snd w) of
                     Inl e \<Rightarrow> w
                   | Inr p' \<Rightarrow> (fst w, p'))))"

text \<open>
  \<^verbatim>\<open>frequencyData[i]\<close> on a Uint8Array: \<^verbatim>\<open>undefined\<close> out of range, which turns a sum
  into NaN.
\<close>

definition sample_at :: "byte list \<Rightarrow> nat \<Rightarrow> number" where
  "sample_at frequencyData i =
     (if i < length frequencyData then Num (real (unat (frequencyData ! i))) else NaN)"

text \<open>\<^verbatim>\<open>for (let i = start; i < end; i++) sum += frequencyData[i]\<close>\<close>

function sum_loop :: "byte list \<Rightarrow> nat \<Rightarrow> nat \<Rightarrow> number \<Rightarrow> number" where
  "sum_loop frequencyData i end_v sum_v =
     (if i < end_v then sum_loop frequencyData (i + 1) end_v (js_add sum_v (sample_at frequencyData i))
      else sum_v)"
  by pat_completeness auto
termination
  by (relation "measure (\<lambda>(frequencyData, i, end_v, sum_v). end_v - i)") auto

declare sum_loop.simps [simp del]

text \<open>The loop bounds of the three bands, as the code computes them from the length.\<close>

definition bassRange :: "nat \<Rightarrow> nat" where
  "bassRange len = Math_floor (real len / 8)"

definition midStart :: "nat \<Rightarrow> nat" where
  "midStart len = Math_floor (real len / 8)"

definition midEnd :: "nat \<Rightarrow> nat" where
  "midEnd len = Math_floor (real len * 5 / 8)"

definition trebleStart :: "nat \<Rightarrow> nat" where
  "trebleStart len = Math_floor (real len * 5 / 8)"

definition getBassFrequency :: "audio_utils \<Rightarrow> platform \<Rightarrow> number \<times> audio_utils" where
  "getBassFrequency m p =
     (case getFrequencyData m p of
        (None, m') \<Rightarrow> (Num 0, m')
      | (Some frequencyData, m') \<Rightarrow>
          (let sum_v = sum_loop frequencyData 0 (bassRange (length frequencyData)) (Num 0)
           in (js_div sum_v (Num (real (bassRange (length frequencyData)))), m')))"

definition getMidFrequency :: "audio_utils \<Rightarrow> platform \<Rightarrow> number \<times> audio_utils" where
  "getMidFrequency m p =
     (case getFrequencyData m p of
        (None, m') \<Rightarrow> (Num 0, m')
      | (Some frequencyData, m') \<Rightarrow>
          (let start = midStart (length frequencyData);
               end_v = midEnd (length frequencyData);
               sum_v = sum_loop frequencyData start end_v (Num 0)
           in (js_div sum_v (Num (real end_v - real start)), m')))"

definition getTrebleFrequency :: "audio_utils \<Rightarrow> platform \<Rightarrow> number \<times> audio_utils" where
  "getTrebleFrequency m p =
     (case getFrequencyData m p of
        (None, m') \<Rightarrow> (Num 0, m')
      | (Some frequencyData, m') \<Rightarrow>
          (let start = trebleStart (length frequencyData);
               sum_v = sum_loop frequencyData start (length frequencyData) (Num 0)
           in (js_div sum_v (Num (real (length frequencyData) - real start)), m')))"

text \<open>\<^verbatim>\<open>detectBeat(threshold = 200)\<close>: \<open>None\<close> is the omitted argument.\<close>

definition detectBeat :: "number option \<Rightarrow> audio_utils \<Rightarrow> platform \<Rightarrow> bool \<times> audio_utils" where
  "detectBeat threshold m p =
     (let (bassLevel, m') = getBassFrequency m p
      in (js_gt bassLevel (case threshold of None \<Rightarrow> Num 200 | Some t \<Rightarrow> t), m'))"

text \<open>
  \<^verbatim>\<open>cleanupAudioContext()\<close>, with the \<^verbatim>\<open>await\<close> on \<^verbatim>\<open>close()\<close> taken as one step.
\<close>

definition cleanupAudioContext :: "audio_utils \<times> platform \<Rightarrow> audio_utils \<times> platform" where
  "cleanupAudioContext w =
     (let (m1, p1) = (case source (fst w) of
                        Some s \<Rightarrow> ((fst w)\<lparr>source := None\<rparr>, disconnect s (snd w))
                      | None \<Rightarrow> w);
          (m2, p2) = (case analyser m1 of
                        Some a \<Rightarrow> (m1\<lparr>analyser := None\<rparr>, disconnect (node_id a) p1)
                      | None \<Rightarrow> (m1, p1));
          (m3, p3) = (case gainNode m2 of
                        Some g \<Rightarrow> (m2\<lparr>gainNode := None\<rparr>, disconnect g p2)
                      | None \<Rightarrow> (m2, p2));
          (m4, p4) = (case audioContext m3 of
                        Some c \<Rightarrow>
                          if state_of p3 c \<noteq> Some Closed
                          then (m3\<lparr>audioContext := None\<rparr>, close c p3)
                          else (m3, p3)
                      | None \<Rightarrow> (m3, p3))
      in (m4\<lparr>dataArray := None\<rparr>, p4))"

section \<open>Taps and signal paths\<close>

text \<open>
  The source nodes that the platform holds for an audio element, and the number of signal
  paths that lead from the element through the module's analyser and gain node to the
  destination of the module's context, counted with the multiplicity of every connection.
\<close>

definition taps_of :: "platform \<Rightarrow> nat \<Rightarrow> nat list" where
  "taps_of p el = map snd (filter (\<lambda>t. fst t = el) (tapped p))"

definition signal_paths :: "audio_utils \<Rightarrow> platform \<Rightarrow> nat \<Rightarrow> nat" where
  "signal_paths m p el =
     (case (audioContext m, analyser m, gainNode m) of
        (Some c, Some a, Some g) \<Rightarrow>
          sum_list (map (\<lambda>s. count_list (edges p) (s, node_id a)
                              * count_list (edges p) (node_id a, g)
                              * count_list (edges p) (g, destination c))
                        (taps_of p el))
      | _ \<Rightarrow> 0)"

text \<open>
  What the platform guarantees by itself: no element has two source nodes, and no
  connection exists twice.
\<close>

definition platform_ok :: "platform \<Rightarrow> bool" where
  "platform_ok p \<longleftrightarrow> distinct (map fst (tapped p)) \<and> distinct (edges p)"

text \<open>
  The module's source, when there is one, is a source node of the platform, and it is
  wired through the module's analyser and gain node to the destination.
\<close>

definition wired :: "audio_utils \<Rightarrow> platform \<Rightarrow> bool" where
  "wired m p =
     (case source m of
        None \<Rightarrow> True
      | Some s \<Rightarrow>
          (case (audioContext m, analyser m, gainNode m) of
             (Some c, Some a, Some g) \<Rightarrow>
               s \<in> snd ` set (tapped p)
               \<and> (s, node_id a) \<in> set (edges p)
               \<and> (node_id a, g) \<in> set (edges p)
               \<and> (g, destination c) \<in> set (edges p)
           | _ \<Rightarrow> False))"

text \<open>
  The states the module can be in: it starts with every variable \<^verbatim>\<open>null\<close>, on any
  platform; its exported functions are called in any order with any arguments; other
  components of the page may tap audio elements, connect nodes, and disconnect nodes of
  their own; and contexts render audio.
\<close>

inductive reachable :: "audio_utils \<times> platform \<Rightarrow> bool" where
  start: "platform_ok p \<Longrightarrow> reachable (initial_utils, p)"
| initialize: "reachable w \<Longrightarrow> reachable (snd (initializeAudioContext audioElement w))"
| connect: "reachable w \<Longrightarrow> reachable (snd (connectAnalyzer audioElement w))"
| cleanup: "reachable w \<Longrightarrow> reachable (cleanupAudioContext w)"
| volume: "reachable w \<Longrightarrow> reachable (setVolume v w)"
| frequency: "reachable (m, p) \<Longrightarrow> reachable (snd (getFrequencyData m p), p)"
| time_domain: "reachable (m, p) \<Longrightarrow> reachable (snd (getTimeDomainData m p), p)"
| foreign_tap:
    "reachable (m, p) \<Longrightarrow> createMediaElementSource (Some el) p = Inr (s, p') \<Longrightarrow> reachable (m, p')"
| foreign_connect: "reachable (m, p) \<Longrightarrow> reachable (m, connect a b p)"
| quantum: "reachable (m, p) \<Longrightarrow> reachable (m, render_quantum c p)"
| foreign_disconnect:
    "reachable (m, p) \<Longrightarrow> source m \<noteq> Some a \<Longrightarrow> gainNode m \<noteq> Some a \<Longrightarrow>
     (\<forall>n. analyser m = Some n \<longrightarrow> node_id n \<noteq> a) \<Longrightarrow> reachable (m, disconnect a p)"

text \<open>
  Binding the same element again and again: each step calls \<^verbatim>\<open>initializeAudioContext\<close>
  (\<open>True\<close>) or \<^verbatim>\<open>connectAnalyzer\<close> (\<open>False\<close>) with the element; an exception that leaves
  \<^verbatim>\<open>connectAnalyzer\<close> is taken to be caught by the caller.
\<close>

fun rebind :: "bool list \<Rightarrow> nat \<Rightarrow> audio_utils \<times> platform \<Rightarrow> audio_utils \<times> platform" where
  "rebind [] el w = w"
| "rebind (b # bs) el w =
     rebind bs el (if b then snd (initializeAudioContext (Some el) w)
                   else snd (connectAnalyzer (Some el) w))"

text \<open>
  The invariant of the module on the platform, and the situation the module is in once it
  has bound the element \<open>el\<close>: its source is the source node \<open>s\<close> of that element.
\<close>

definition graph_inv :: "audio_utils \<times> platform \<Rightarrow> bool" where
  "graph_inv w \<longleftrightarrow> platform_ok (snd w) \<and> wired (fst w) (snd w)"

definition bound :: "nat \<Rightarrow> nat \<Rightarrow> audio_utils \<times> platform \<Rightarrow> bool" where
  "bound el s w \<longleftrightarrow> graph_inv w \<and> source (fst w) = Some s \<and> (el, s) \<in> set (tapped (snd w))"

section \<open>The renderer\<close>

text \<open>
  The drawing surface with its size in pixels, and the calls made on its 2D context, in
  the order they are made. Assignments to properties of the context are recorded as calls
  too. Coordinates are exact reals.
\<close>

record canvas =
  width :: nat
  height :: nat

datatype draw_cmd =
    ClearRect real real real real
  | CreateLinearGradient real real real real
  | AddColorStop real string
  | FillStyleGradient
  | StrokeStyleGradient
  | FillStyle string
  | StrokeStyle string
  | LineWidth real
  | LineCap string
  | LineJoin string
  | ShadowColor string
  | ShadowBlur real
  | BeginPath
  | RoundRect real real real real "real list"
  | Arc real real real real real
  | MoveTo real real
  | LineTo real real
  | Fill
  | Stroke

text \<open>\<^verbatim>\<open>dataArray[i]\<close> inside the loops, where \<open>i\<close> is below the length\<close>

definition sample :: "byte list \<Rightarrow> nat \<Rightarrow> real" where
  "sample dataArray_v i = real (unat (dataArray_v ! i))"

text \<open>The body of the loop of \<^verbatim>\<open>drawBars\<close>, and the loop.\<close>

definition draw_bar :: "byte list \<Rightarrow> nat \<Rightarrow> real \<Rightarrow> real \<Rightarrow> string \<Rightarrow> real \<Rightarrow> draw_cmd list" where
  "draw_bar dataArray_v i barWidth height_v color sensitivity =
     (let barHeight = (sample dataArray_v i / 255) * height_v * sensitivity;
          x = real i * barWidth;
          y = height_v - barHeight
      in [BeginPath, RoundRect (x + 1) y (barWidth - 2) barHeight [2, 2, 0, 0], Fill,
          ShadowColor color, ShadowBlur 10, Fill, ShadowBlur 0])"

function bars_loop ::
  "byte list \<Rightarrow> nat \<Rightarrow> nat \<Rightarrow> real \<Rightarrow> real \<Rightarrow> string \<Rightarrow> real \<Rightarrow> draw_cmd list" where
  "bars_loop dataArray_v i barCount barWidth height_v color sensitivity =
     (if i < barCount
      then draw_bar dataArray_v i barWidth height_v color sensitivity
           @ bars_loop dataArray_v (i + 1) barCount barWidth height_v color sensitivity
      else [])"
  by pat_completeness auto
termination
  by (relation "measure (\<lambda>(dataArray_v, i, barCount, rest). barCount - i)") auto

declare bars_loop.simps [simp del]

text \<open>
  \<^verbatim>\<open>drawBars(canvas, ctx, dataArray)\<close>, with the \<^verbatim>\<open>color\<close> and \<^verbatim>\<open>sensitivity\<close> the callback
  closes over. For an empty array \<^verbatim>\<open>barWidth\<close> is not finite, and not used.
\<close>

definition drawBars :: "string \<Rightarrow> real \<Rightarrow> canvas \<Rightarrow> byte list \<Rightarrow> draw_cmd list" where
  "drawBars color sensitivity canvas dataArray_v =
     (let width_v = real (width canvas);
          height_v = real (height canvas);
          barCount = length dataArray_v;
          barWidth = width_v / real barCount
      in [ClearRect 0 0 width_v height_v,
          CreateLinearGradient 0 height_v 0 0,
          AddColorStop 0 (color @ ''40''),
          AddColorStop (1 / 2) (color @ ''80''),
          AddColorStop 1 color,
          FillStyleGradient]
         @ bars_loop dataArray_v 0 barCount barWidth height_v color sensitivity)"

text \<open>The body of the loop of \<^verbatim>\<open>drawCircular\<close>, the loop, and the function.\<close>

definition draw_spoke ::
  "byte list \<Rightarrow> nat \<Rightarrow> real \<Rightarrow> real \<Rightarrow> real \<Rightarrow> real \<Rightarrow> string \<Rightarrow> real \<Rightarrow> draw_cmd list" where
  "draw_spoke dataArray_v i angleStep centerX centerY radius color sensitivity =
     (let angle = real i * angleStep;
          barHeight = (sample dataArray_v i / 255) * 60 * sensitivity;
          x1 = centerX + cos angle * radius;
          y1 = centerY + sin angle * radius;
          x2 = centerX + cos angle * (radius + barHeight);
          y2 = centerY + sin angle * (radius + barHeight)
      in [CreateLinearGradient x1 y1 x2 y2, AddColorStop 0 (color @ ''40''), AddColorStop 1 color,
          BeginPath, MoveTo x1 y1, LineTo x2 y2, StrokeStyleGradient, LineWidth 3,
          LineCap ''round'', Stroke, ShadowColor color, ShadowBlur 5, Stroke, ShadowBlur 0])"

function spokes_loop ::
  "byte list \<Rightarrow> nat \<Rightarrow> nat \<Rightarrow> real \<Rightarrow> real \<Rightarrow> real \<Rightarrow> real \<Rightarrow> string \<Rightarrow> real \<Rightarrow> draw_cmd list" where
  "spokes_loop dataArray_v i barCount angleStep centerX centerY radius color sensitivity =
     (if i < barCount
      then draw_spoke dataArray_v i angleStep centerX centerY radius color sensitivity
           @ spokes_loop dataArray_v (i + 1) barCount angleStep centerX centerY radius color sensitivity
      else [])"
  by pat_completeness auto
termination
  by (relation "measure (\<lambda>(dataArray_v, i, barCount, rest). barCount - i)") auto

declare spokes_loop.simps [simp del]

definition drawCircular :: "string \<Rightarrow> real \<Rightarrow> canvas \<Rightarrow> byte list \<Rightarrow> draw_cmd list" where
  "drawCircular color sensitivity canvas dataArray_v =
     (let width_v = real (width canvas);
          height_v = real (height canvas);
          centerX = width_v / 2;
          centerY = height_v / 2;
          radius = min width_v height_v / 4;
          barCount = length dataArray_v;
          angleStep = (2 * pi) / real barCount
      in [ClearRect 0 0 width_v height_v,
          BeginPath, Arc centerX centerY (radius + 20) 0 (2 * pi),
          StrokeStyle (color @ ''20''), LineWidth 2, Stroke]
         @ spokes_loop dataArray_v 0 barCount angleStep centerX centerY radius color sensitivity
         @ [BeginPath, Arc centerX centerY 20 0 (2 * pi), FillStyle (color @ ''60''), Fill])"

text \<open>
  The loop of \<^verbatim>\<open>drawWaveform\<close>; \<open>x\<close> is the running abscissa, advanced by \<^verbatim>\<open>sliceWidth\<close>
  after every vertex.
\<close>

function waveform_loop ::
  "byte list \<Rightarrow> nat \<Rightarrow> real \<Rightarrow> real \<Rightarrow> real \<Rightarrow> real \<Rightarrow> real \<Rightarrow> draw_cmd list" where
  "waveform_loop dataArray_v i x sliceWidth centerY height_v sensitivity =
     (if i < length dataArray_v
      then (let v = (sample dataArray_v i / 255) * sensitivity;
                y = centerY + (v * height_v / 2) - (height_v / 4)
            in (if i = 0 then MoveTo x y else LineTo x y)
               # waveform_loop dataArray_v (i + 1) (x + sliceWidth) sliceWidth centerY height_v
                   sensitivity)
      else [])"
  by pat_completeness auto
termination
  by (relation "measure (\<lambda>(dataArray_v, i, rest). length dataArray_v - i)") auto

declare waveform_loop.simps [simp del]

definition drawWaveform :: "string \<Rightarrow> real \<Rightarrow> canvas \<Rightarrow> byte list \<Rightarrow> draw_cmd list" where
  "drawWaveform color sensitivity canvas dataArray_v =
     (let width_v = real (width canvas);
          height_v = real (height canvas);
          centerY = height_v / 2;
          sliceWidth = width_v / real (length dataArray_v)
      in [ClearRect 0 0 width_v height_v,
          CreateLinearGradient 0 0 width_v 0,
          AddColorStop 0 (color @ ''60''),
          AddColorStop (1 / 2) color,
          AddColorStop 1 (color @ ''60''),
          StrokeStyleGradient, LineWidth 3, LineCap ''round'', LineJoin ''round'',
          BeginPath]
         @ waveform_loop dataArray_v 0 0 sliceWidth centerY height_v sensitivity
         @ [Stroke, ShadowColor color, ShadowBlur 10, Stroke, ShadowBlur 0])"

text \<open>
  What a list of calls draws: the rectangles of its bars (x, y, width, height), and the
  vertices of its paths, each with the call that made it.
\<close>

fun bar_rects :: "draw_cmd list \<Rightarrow> (real \<times> real \<times> real \<times> real) list" where
  "bar_rects [] = []"
| "bar_rects (RoundRect x y w h radii # cs) = (x, y, w, h) # bar_rects cs"
| "bar_rects (c # cs) = bar_rects cs"

fun vertices :: "draw_cmd list \<Rightarrow> (bool \<times> real \<times> real) list" where
  "vertices [] = []"
| "vertices (MoveTo x y # cs) = (True, x, y) # vertices cs"
| "vertices (LineTo x y # cs) = (False, x, y) # vertices cs"
| "vertices (c # cs) = vertices cs"

section \<open>The animation driver\<close>

text \<open>
  The props of the Visualizer component that its callbacks close over, and the component
  with its refs, its \<^verbatim>\<open>isInitialized\<close> state, the props of its latest render, the callbacks
  waiting in \<^verbatim>\<open>requestAnimationFrame\<close> (each with its handle and the props its closure
  captured), and the trace of what it has sampled and drawn.
\<close>

record props =
  isPlaying :: bool
  visualizerType :: string
  color :: string
  sensitivity :: real

datatype frame_event = Sampled "byte list" | Rendered "draw_cmd list"

record visualizer =
  canvasRef :: "canvas option"
  animationRef :: "nat option"
  audioContextRef :: "nat option"
  analyserRef :: "analyser_node option"
  sourceRef :: "nat option"
  dataArrayRef :: "byte list option"
  isInitialized :: bool
  rendered :: props
  frames :: "(nat \<times> props) list"
  next_frame :: nat
  trace :: "frame_event list"

fun is_render :: "frame_event \<Rightarrow> bool" where
  "is_render (Rendered cmds) = True"
| "is_render (Sampled d) = False"

text \<open>
  \<^verbatim>\<open>animationRef.current = requestAnimationFrame(animate)\<close>: handles are positive.
  \<^verbatim>\<open>cancelAnimationFrame(handle)\<close> removes the callback when it still waits.
\<close>

definition requestAnimationFrame :: "props \<Rightarrow> visualizer \<Rightarrow> visualizer" where
  "requestAnimationFrame pr v =
     v\<lparr>animationRef := Some (Suc (next_frame v)),
       frames := frames v @ [(Suc (next_frame v), pr)],
       next_frame := Suc (next_frame v)\<rparr>"

definition cancelAnimationFrame :: "nat \<Rightarrow> visualizer \<Rightarrow> visualizer" where
  "cancelAnimationFrame h v = v\<lparr>frames := filter (\<lambda>f. fst f \<noteq> h) (frames v)\<rparr>"

text \<open>\<^verbatim>\<open>if (animationRef.current)\<close>: a handle that is not 0\<close>

definition has_handle :: "visualizer \<Rightarrow> bool" where
  "has_handle v = (case animationRef v of None \<Rightarrow> False | Some h \<Rightarrow> h \<noteq> 0)"

text \<open>The \<^verbatim>\<open>switch (visualizerType)\<close> of \<^verbatim>\<open>animate\<close>; bars are the default.\<close>

definition draw_frame :: "props \<Rightarrow> canvas \<Rightarrow> byte list \<Rightarrow> draw_cmd list" where
  "draw_frame pr canvas_v d =
     (if visualizerType pr = ''circular''
      then drawCircular (color pr) (sensitivity pr) canvas_v d
      else if visualizerType pr = ''waveform''
      then drawWaveform (color pr) (sensitivity pr) canvas_v d
      else drawBars (color pr) (sensitivity pr) canvas_v d)"

text \<open>\<^verbatim>\<open>animate\<close>, as created in a render with the props \<open>pr\<close>.\<close>

definition animate :: "props \<Rightarrow> platform \<Rightarrow> visualizer \<Rightarrow> visualizer" where
  "animate pr p v =
     (if analyserRef v = None \<or> dataArrayRef v = None \<or> canvasRef v = None then v
      else
        (let canvas_v = the (canvasRef v);
             d = getByteFrequencyData p (the (dataArrayRef v));
             v1 = v\<lparr>dataArrayRef := Some d, trace := trace v @ [Sampled d]\<rparr>;
             v2 = v1\<lparr>trace := trace v1 @ [Rendered (draw_frame pr canvas_v d)]\<rparr>
         in if isPlaying pr then requestAnimationFrame pr v2 else v2))"

text \<open>
  The component's own \<^verbatim>\<open>initializeAudioContext\<close> and \<^verbatim>\<open>resumeAudioContext\<close>;
  \<open>initialized\<close> is the value of \<^verbatim>\<open>isInitialized\<close> in the render that created the callback.
\<close>

definition visualizer_initialize ::
  "nat option \<Rightarrow> bool \<Rightarrow> platform \<Rightarrow> visualizer \<Rightarrow> visualizer \<times> platform" where
  "visualizer_initialize audioRef initialized p v =
     (if audioRef = None \<or> initialized then (v, p)
      else
        (case new_AudioContext p of
           Inl e \<Rightarrow> (v, p)
         | Inr (c, p1) \<Rightarrow>
             (let v1 = v\<lparr>audioContextRef := Some c\<rparr>;
                  (n, p2) = createAnalyser p1;
                  a = \<lparr>node_id = n, fftSize = 256, smoothingTimeConstant = 8 / 10\<rparr>;
                  v2 = v1\<lparr>analyserRef := Some a\<rparr>
              in case createMediaElementSource audioRef p2 of
                   Inl e \<Rightarrow> (v2, p2)
                 | Inr (s, p3) \<Rightarrow>
                     (v2\<lparr>sourceRef := Some s,
                         dataArrayRef := Some (replicate (frequencyBinCount a) 0),
                         isInitialized := True\<rparr>,
                      connect (node_id a) (destination c) (connect s (node_id a) p3)))))"

definition visualizer_resume :: "platform \<Rightarrow> visualizer \<Rightarrow> platform" where
  "visualizer_resume p v =
     (case audioContextRef v of
        None \<Rightarrow> p
      | Some c \<Rightarrow> if state_of p c = Some Suspended then resume c p else p)"

text \<open>
  The effect that initializes the audio context when audio starts playing, and the effect
  that starts and stops the animation, with its cleanup. \<open>initialized\<close> is the value of
  \<^verbatim>\<open>isInitialized\<close> in the render whose effects run.
\<close>

definition initialize_effect ::
  "props \<Rightarrow> nat option \<Rightarrow> bool \<Rightarrow> visualizer \<times> platform \<Rightarrow> visualizer \<times> platform" where
  "initialize_effect pr audioRef initialized w =
     (if isPlaying pr \<and> audioRef \<noteq> None
      then (let (v', p') = visualizer_initialize audioRef initialized (snd w) (fst w)
            in (v', visualizer_resume p' v'))
      else w)"

definition animation_cleanup :: "visualizer \<Rightarrow> visualizer" where
  "animation_cleanup v =
     (if has_handle v then cancelAnimationFrame (the (animationRef v)) v else v)"

definition animation_effect :: "props \<Rightarrow> bool \<Rightarrow> platform \<Rightarrow> visualizer \<Rightarrow> visualizer" where
  "animation_effect pr initialized p v =
     (if isPlaying pr \<and> initialized then animate pr p v
      else if has_handle v then cancelAnimationFrame (the (animationRef v)) v
      else v)"

text \<open>
  The effects of one render with the props \<open>pr\<close> in which \<^verbatim>\<open>isPlaying\<close> or \<^verbatim>\<open>isInitialized\<close>
  has changed, so that both effects run: the cleanup of the previous render's animation
  effect, the effect that initializes the audio context, and the effect that starts or
  stops the animation. In a render in which only \<^verbatim>\<open>visualizerType\<close>, \<^verbatim>\<open>color\<close> or
  \<^verbatim>\<open>sensitivity\<close> has changed, \<^verbatim>\<open>animate\<close> is a new callback and only the animation effect
  runs, after its cleanup; in a render in which only \<^verbatim>\<open>audioRef\<close> has changed, only the
  initializing effect runs.
\<close>

definition render :: "props \<Rightarrow> nat option \<Rightarrow> visualizer \<times> platform \<Rightarrow> visualizer \<times> platform" where
  "render pr audioRef w =
     (let initialized = isInitialized (fst w);
          v0 = (animation_cleanup (fst w))\<lparr>rendered := pr\<rparr>;
          (v1, p1) = initialize_effect pr audioRef initialized (v0, snd w)
      in (animation_effect pr initialized p1 v1, p1))"

definition restyle :: "props \<Rightarrow> visualizer \<times> platform \<Rightarrow> visualizer \<times> platform" where
  "restyle pr w =
     (animation_effect pr (isInitialized (fst w)) (snd w)
        ((animation_cleanup (fst w))\<lparr>rendered := pr\<rparr>), snd w)"

definition retarget :: "nat option \<Rightarrow> visualizer \<times> platform \<Rightarrow> visualizer \<times> platform" where
  "retarget audioRef w =
     initialize_effect (rendered (fst w)) audioRef (isInitialized (fst w)) w"

text \<open>
  The hosting view goes away: the cleanups of the effects cancel the frame that waits and
  close the audio context, and the canvas ref becomes \<^verbatim>\<open>null\<close>.
\<close>

definition unmount :: "visualizer \<times> platform \<Rightarrow> visualizer \<times> platform" where
  "unmount w =
     (let v1 = animation_cleanup (fst w);
          v2 = (if has_handle v1 then cancelAnimationFrame (the (animationRef v1)) v1 else v1);
          p2 = (case audioContextRef v2 of
                  None \<Rightarrow> snd w
                | Some c \<Rightarrow> if state_of (snd w) c \<noteq> Some Closed then close c (snd w) else snd w)
      in (v2\<lparr>canvasRef := None\<rparr>, p2))"

text \<open>The display refreshes: the callback that waits longest is taken out and called.\<close>

definition fire_frame :: "platform \<Rightarrow> visualizer \<Rightarrow> visualizer" where
  "fire_frame p v =
     (case frames v of
        [] \<Rightarrow> v
      | (h, pr) # rest \<Rightarrow> animate pr p (v\<lparr>frames := rest\<rparr>))"

text \<open>
  The component as React mounts it, before the effects of its first render have run, and
  the states it can be in afterwards: the effects of a render run (all of them, or the
  animation effect alone with \<^verbatim>\<open>isPlaying\<close> as it was, or the initializing effect alone), a
  frame fires, the platform changes (audio plays, time passes, other components act), the
  view goes away.
\<close>

definition mounted :: "props \<Rightarrow> canvas \<Rightarrow> nat \<Rightarrow> visualizer" where
  "mounted pr canvas_v n =
     \<lparr>canvasRef = Some canvas_v, animationRef = None, audioContextRef = None,
      analyserRef = None, sourceRef = None, dataArrayRef = None, isInitialized = False,
      rendered = pr, frames = [], next_frame = n, trace = []\<rparr>"

inductive vis_reachable :: "visualizer \<times> platform \<Rightarrow> bool" where
  mount: "vis_reachable (mounted pr canvas_v n, p)"
| rerender: "vis_reachable w \<Longrightarrow> vis_reachable (render pr audioRef w)"
| restyled: "vis_reachable w \<Longrightarrow> isPlaying pr = isPlaying (rendered (fst w))
     \<Longrightarrow> vis_reachable (restyle pr w)"
| retargeted: "vis_reachable w \<Longrightarrow> vis_reachable (retarget audioRef w)"
| frame: "vis_reachable (v, p) \<Longrightarrow> vis_reachable (fire_frame p v, p)"
| environment: "vis_reachable (v, p) \<Longrightarrow> vis_reachable (v, p')"
| unmounted: "vis_reachable w \<Longrightarrow> vis_reachable (unmount w)"

text \<open>
  The component can draw; and the invariant of the driver: an initialized component has
  its analyser and its data array, and at most one frame waits, which is then the one
  \<^verbatim>\<open>animationRef\<close> holds, requested by the latest render, while playing.
\<close>

definition ready :: "visualizer \<Rightarrow> bool" where
  "ready v \<longleftrightarrow> analyserRef v \<noteq> None \<and> dataArrayRef v \<noteq> None \<and> canvasRef v \<noteq> None"

definition driver_inv :: "visualizer \<Rightarrow> bool" where
  "driver_inv v \<longleftrightarrow>
     (isInitialized v \<longrightarrow> analyserRef v \<noteq> None \<and> dataArrayRef v \<noteq> None)
     \<and> (frames v = [] \<or>
         (\<exists>h. h \<noteq> 0 \<and> frames v = [(h, rendered v)] \<and> animationRef v = Some h
              \<and> isPlaying (rendered v) \<and> ready v))"

section \<open>Example states\<close>

text \<open>
  A platform on which nothing has been created yet, and the state that
  \<^verbatim>\<open>initializeAudioContext\<close> reaches from it for the audio element 7: the context 0 with
  its destination 1, the analyser 2, the gain node 3 and the source node 4. The analyser
  reports 128 bytes: 240 in the bass range, 100 in the mid range, 20 in the treble range.
\<close>

definition demo_bytes :: "byte list" where
  "demo_bytes = replicate 16 240 @ replicate 64 100 @ replicate 48 20"

definition fresh_platform :: platform where
  "fresh_platform =
     \<lparr>supported = True, gesture = True, fresh = 0, ctx_states = [], tapped = [], edges = [],
      gain_owner = [], gain_events = [], gain_values = [], currentTime = 0,
      freq_bytes = demo_bytes,
      time_bytes = replicate 128 128\<rparr>"

text \<open>The same platform without the Web Audio API.\<close>

definition unsupported_platform :: platform where
  "unsupported_platform = fresh_platform\<lparr>supported := False\<rparr>"

definition demo_platform :: platform where
  "demo_platform =
     \<lparr>supported = True, gesture = True, fresh = 5, ctx_states = [(0, Running)],
      tapped = [(7, 4)], edges = [(4, 2), (2, 3), (3, 1)],
      gain_owner = [(3, 0)], gain_events = [], gain_values = [], currentTime = 0,
      freq_bytes = demo_bytes,
      time_bytes = replicate 128 128\<rparr>"

text \<open>The state that is reached instead when no user gesture has happened yet.\<close>

definition suspended_platform :: platform where
  "suspended_platform = demo_platform\<lparr>gesture := False, ctx_states := [(0, Suspended)]\<rparr>"

definition demo_analyser :: analyser_node where
  "demo_analyser = \<lparr>node_id = 2, fftSize = 256, smoothingTimeConstant = 8 / 10\<rparr>"

definition demo_utils :: audio_utils where
  "demo_utils =
     \<lparr>audioContext = Some 0, analyser = Some demo_analyser,
      dataArray = Some (replicate 128 0), source = Some 4, gainNode = Some 3\<rparr>"

text \<open>The same module state with a data array of one cell.\<close>

definition short_utils :: audio_utils where
  "short_utils =
     \<lparr>audioContext = Some 0, analyser = Some demo_analyser,
      dataArray = Some [0], source = Some 4, gainNode = Some 3\<rparr>"

text \<open>A drawing surface of 512 by 200 pixels.\<close>

definition demo_canvas :: canvas where
  "demo_canvas = \<lparr>width = 512, height = 200\<rparr>"

text \<open>
  The props of a render while playing and of a render while stopped, and the component
  and the platform that the first render while playing leaves behind on the fresh platform
  for the audio element 7: the context 0 with its destination 1, the analyser 2 and the
  source node 3; the component is initialized and no frame waits yet.
\<close>

definition playing :: props where
  "playing = \<lparr>isPlaying = True, visualizerType = ''bars'', color = ''#3b82f6'', sensitivity = 1\<rparr>"

definition stopped :: props where
  "stopped = \<lparr>isPlaying = False, visualizerType = ''bars'', color = ''#3b82f6'', sensitivity = 1\<rparr>"

definition demo_visualizer :: visualizer where
  "demo_visualizer =
     \<lparr>canvasRef = Some demo_canvas, animationRef = None, audioContextRef = Some 0,
      analyserRef = Some demo_analyser, sourceRef = Some 3,
      dataArrayRef = Some (replicate 128 0), isInitialized = True, rendered = playing,
      frames = [], next_frame = 0, trace = []\<rparr>"

definition visualizer_platform :: platform where
  "visualizer_platform =
     \<lparr>supported = True, gesture = True, fresh = 4, ctx_states = [(0, Running)],
      tapped = [(7, 3)], edges = [(3, 2), (2, 1)],
      gain_owner = [], gain_events = [], gain_values = [], currentTime = 0,
      freq_bytes = demo_bytes,
      time_bytes = replicate 128 128\<rparr>"

text \<open>
  The same component once playback has started: it has sampled and drawn once, and the
  frame 1 waits. And the props of a render while playing in another colour.
\<close>

definition started_visualizer :: visualizer where
  "started_visualizer =
     demo_visualizer\<lparr>dataArrayRef := Some demo_bytes,
        trace := [Sampled demo_bytes, Rendered (drawBars ''#3b82f6'' 1 demo_canvas demo_bytes)],
        animationRef := Some 1, frames := [(1, playing)], next_frame := 1\<rparr>"

definition recolored :: props where
  "recolored = playing\<lparr>color := ''#ef4444''\<rparr>"

section \<open>Numbers and loops\<close>

lemma Math_floor_div8: "Math_floor (real n / 8) = n div 8"
proof -
  have "\<lfloor>real n / real 8\<rfloor> = int (n div 8)" by (rule floor_divide_of_nat_eq)
  then show ?thesis by (simp add: Math_floor_def)
qed

lemma Math_floor_5div8: "Math_floor (real n * 5 / 8) = (n * 5) div 8"
proof -
  have "\<lfloor>real (n * 5) / real 8\<rfloor> = int ((n * 5) div 8)" by (rule floor_divide_of_nat_eq)
  then show ?thesis by (simp add: Math_floor_def)
qed

lemmas band_bounds =
  bassRange_def midStart_def midEnd_def trebleStart_def Math_floor_div8 Math_floor_5div8

lemma js_lt_trans: "js_lt a b \<Longrightarrow> js_lt b c \<Longrightarrow> js_lt a c"
  by (cases a; cases b; cases c) simp_all

text \<open>
  Inside the array the loop adds finite numbers only: it returns the sum of the bytes
  from \<open>i\<close> up to \<open>e\<close>, added to what it started with.
\<close>

lemma sum_loop_Num:
  "e \<le> length fd \<Longrightarrow>
   sum_loop fd i e (Num s) = Num (s + (\<Sum>k = i..<e. real (unat (fd ! k))))"
proof (induction fd i e "Num s" arbitrary: s rule: sum_loop.induct)
  case (1 fd i e)
  show ?case
  proof (cases "i < e")
    case True
    then have "sample_at fd i = Num (real (unat (fd ! i)))"
      using "1.prems" by (simp add: sample_at_def)
    with True "1.hyps" "1.prems" show ?thesis
      by (simp add: sum_loop.simps [of fd i e] sum.atLeast_Suc_lessThan add.assoc)
  next
    case False
    then show ?thesis by (simp add: sum_loop.simps [of fd i e])
  qed
qed

section \<open>Sampling\<close>

lemma write_bytes_twice: "write_bytes bs (write_bytes bs array) = write_bytes bs array"
  by (simp add: write_bytes_def min_def)

lemma getFrequencyData_twice:
  "getFrequencyData (snd (getFrequencyData m p)) p = getFrequencyData m p"
  by (simp add: getFrequencyData_def getByteFrequencyData_def Let_def write_bytes_twice)

lemma demo_length: "length demo_bytes = 128"
  by (simp add: demo_bytes_def)

lemma demo_sample:
  "getFrequencyData demo_utils demo_platform =
     (Some demo_bytes, demo_utils\<lparr>dataArray := Some demo_bytes\<rparr>)"
  by (simp add: getFrequencyData_def getByteFrequencyData_def write_bytes_def Let_def
      demo_utils_def demo_platform_def demo_length)

lemma short_sample:
  "getFrequencyData short_utils demo_platform =
     (Some [240], short_utils\<lparr>dataArray := Some [240]\<rparr>)"
  by (simp add: getFrequencyData_def getByteFrequencyData_def write_bytes_def Let_def
      short_utils_def demo_platform_def demo_length)
     (simp add: demo_bytes_def)

lemma ensure_keep_dataArray:
  "ensure_context m p = Inr (c, m', p') \<Longrightarrow> dataArray m' = dataArray m"
  "ensure_analyser m p = (a, m', p') \<Longrightarrow> dataArray m' = dataArray m"
  "ensure_gain c m p = (g, m', p') \<Longrightarrow> dataArray m' = dataArray m"
  by (auto simp: ensure_context_def ensure_analyser_def ensure_gain_def createAnalyser_def
      createGain_def Let_def split: option.splits sum.splits prod.splits)

lemma connectAnalyzer_dataArray:
  "dataArray (fst (snd (connectAnalyzer el w))) = dataArray (fst w)"
proof (cases "ensure_context (fst w) (snd w)")
  case (Inl e)
  then show ?thesis by (simp add: connectAnalyzer_def)
next
  case (Inr r)
  obtain c m1 p1 where r: "r = (c, m1, p1)" by (cases r) auto
  obtain a m2 p2 where a: "ensure_analyser m1 p1 = (a, m2, p2)" by (cases "ensure_analyser m1 p1") auto
  obtain g m3 p3 where g: "ensure_gain c m2 p2 = (g, m3, p3)" by (cases "ensure_gain c m2 p2") auto
  from ensure_keep_dataArray(1) [OF Inr [unfolded r]] ensure_keep_dataArray(2) [OF a]
    ensure_keep_dataArray(3) [OF g]
  have "dataArray m3 = dataArray (fst w)" by simp
  then show ?thesis using Inr r a g
    by (simp add: connectAnalyzer_def Let_def split: sum.splits prod.splits)
qed

lemma initializeAudioContext_failed_dataArray:
  assumes "fst (initializeAudioContext el w) = NotInitialized e"
  shows "dataArray (fst (snd (initializeAudioContext el w))) = dataArray (fst w)"
proof (cases "ensure_context (fst w) (snd w)")
  case (Inl e)
  then show ?thesis by (simp add: initializeAudioContext_def)
next
  case (Inr r)
  obtain c m1 p1 where r: "r = (c, m1, p1)" by (cases r) auto
  define p2 where "p2 = (if state_of p1 c = Some Suspended then resume c p1 else p1)"
  obtain a m3 p3 where a: "ensure_analyser m1 p2 = (a, m3, p3)" by (cases "ensure_analyser m1 p2") auto
  obtain g m4 p4 where g: "ensure_gain c m3 p3 = (g, m4, p4)" by (cases "ensure_gain c m3 p3") auto
  from ensure_keep_dataArray(1) [OF Inr [unfolded r]] ensure_keep_dataArray(2) [OF a]
    ensure_keep_dataArray(3) [OF g]
  have "dataArray m4 = dataArray (fst w)" by simp
  then show ?thesis using assms Inr r a g
    by (auto simp add: initializeAudioContext_def p2_def Let_def split: sum.splits prod.splits if_splits)
qed

text \<open>C3: as long as the analyser or the data array is absent, \<^verbatim>\<open>getFrequencyData\<close> and
  \<^verbatim>\<open>getTimeDomainData\<close> return \<^verbatim>\<open>null\<close> and change nothing. That is so in the module's
  initial state, after an \<^verbatim>\<open>initializeAudioContext\<close> that failed, and after
  \<^verbatim>\<open>connectAnalyzer\<close> alone, which never creates the data array. With analyser and data
  array present they return an array. Neither has a way to raise: the platform call is
  inside a \<^verbatim>\<open>try\<close>.\<close>

theorem sampling_before_bind_returns_null:
  "(analyser m = None \<or> dataArray m = None \<longrightarrow>
      getFrequencyData m p = (None, m) \<and> getTimeDomainData m p = (None, m))
 \<and> getFrequencyData initial_utils p = (None, initial_utils)
 \<and> getTimeDomainData initial_utils p = (None, initial_utils)
 \<and> (dataArray m = None \<and> fst (initializeAudioContext el (m, p)) = NotInitialized e \<longrightarrow>
      fst (getFrequencyData (fst (snd (initializeAudioContext el (m, p)))) q) = None
    \<and> fst (getTimeDomainData (fst (snd (initializeAudioContext el (m, p)))) q) = None)
 \<and> (dataArray m = None \<longrightarrow>
      fst (getFrequencyData (fst (snd (connectAnalyzer el (m, p)))) q) = None
    \<and> fst (getTimeDomainData (fst (snd (connectAnalyzer el (m, p)))) q) = None)
 \<and> (analyser m \<noteq> None \<and> dataArray m \<noteq> None \<longrightarrow>
      fst (getFrequencyData m p) \<noteq> None \<and> fst (getTimeDomainData m p) \<noteq> None)"
proof -
  have null: "getFrequencyData m' p' = (None, m') \<and> getTimeDomainData m' p' = (None, m')"
    if "analyser m' = None \<or> dataArray m' = None" for m' p'
    using that by (auto simp add: getFrequencyData_def getTimeDomainData_def)
  have init: "getFrequencyData initial_utils p = (None, initial_utils)"
    "getTimeDomainData initial_utils p = (None, initial_utils)"
    using null [of initial_utils p] by (simp_all add: initial_utils_def)
  have failed: "fst (getFrequencyData (fst (snd (initializeAudioContext el (m, p)))) q) = None
    \<and> fst (getTimeDomainData (fst (snd (initializeAudioContext el (m, p)))) q) = None"
    if "dataArray m = None" "fst (initializeAudioContext el (m, p)) = NotInitialized e"
    using initializeAudioContext_failed_dataArray [OF that(2)] that(1)
      null [of "fst (snd (initializeAudioContext el (m, p)))" q] by simp
  have conn: "fst (getFrequencyData (fst (snd (connectAnalyzer el (m, p)))) q) = None
    \<and> fst (getTimeDomainData (fst (snd (connectAnalyzer el (m, p)))) q) = None"
    if "dataArray m = None"
    using connectAnalyzer_dataArray [of el "(m, p)"] that
      null [of "fst (snd (connectAnalyzer el (m, p)))" q] by simp
  have ready: "fst (getFrequencyData m p) \<noteq> None \<and> fst (getTimeDomainData m p) \<noteq> None"
    if "analyser m \<noteq> None \<and> dataArray m \<noteq> None"
    using that by (simp add: getFrequencyData_def getTimeDomainData_def Let_def)
  from null [of m p] init failed conn ready show ?thesis by blast
qed

theorem sampling_before_bind_returns_null_witness:
  "dataArray initial_utils = None
 \<and> getFrequencyData initial_utils fresh_platform = (None, initial_utils)
 \<and> fst (initializeAudioContext (Some 7) (initial_utils, unsupported_platform)) = NotInitialized TypeError
 \<and> fst (getFrequencyData (fst (snd (initializeAudioContext (Some 7) (initial_utils, unsupported_platform))))
      unsupported_platform) = None
 \<and> fst (getTimeDomainData (fst (snd (connectAnalyzer (Some 7) (initial_utils, fresh_platform))))
      fresh_platform) = None
 \<and> analyser demo_utils \<noteq> None \<and> dataArray demo_utils \<noteq> None
 \<and> fst (getFrequencyData demo_utils demo_platform) \<noteq> None
 \<and> fst (getTimeDomainData demo_utils demo_platform) \<noteq> None"
proof -
  have f: "fst (initializeAudioContext (Some 7) (initial_utils, unsupported_platform)) = NotInitialized TypeError"
    by (simp add: initializeAudioContext_def ensure_context_def new_AudioContext_def
        initial_utils_def unsupported_platform_def)
  have d: "dataArray initial_utils = None" "analyser initial_utils = None"
    by (simp_all add: initial_utils_def)
  have r: "analyser demo_utils \<noteq> None" "dataArray demo_utils \<noteq> None"
    by (simp_all add: demo_utils_def)
  from sampling_before_bind_returns_null
      [where m = initial_utils and p = unsupported_platform and el = "Some 7" and e = TypeError
         and q = unsupported_platform]
    sampling_before_bind_returns_null
      [where m = initial_utils and p = fresh_platform and el = "Some 7" and q = fresh_platform]
    sampling_before_bind_returns_null [where m = demo_utils and p = demo_platform]
  show ?thesis using f d r by simp
qed

section \<open>Bands\<close>

lemma bass_value:
  assumes "getFrequencyData m p = (Some fd, m')"
  shows "fst (getBassFrequency m p) =
     js_div (Num (\<Sum>k = 0..<length fd div 8. real (unat (fd ! k)))) (Num (real (length fd div 8)))"
proof -
  have "length fd div 8 \<le> length fd" by simp
  then show ?thesis using assms
    by (simp add: getBassFrequency_def band_bounds sum_loop_Num)
qed

lemma mid_value:
  assumes "getFrequencyData m p = (Some fd, m')"
  shows "fst (getMidFrequency m p) =
     js_div (Num (\<Sum>k = length fd div 8..<length fd * 5 div 8. real (unat (fd ! k))))
            (Num (real (length fd * 5 div 8) - real (length fd div 8)))"
proof -
  have "length fd * 5 div 8 \<le> length fd" by simp
  then show ?thesis using assms
    by (simp add: getMidFrequency_def band_bounds sum_loop_Num Let_def)
qed

lemma treble_value:
  assumes "getFrequencyData m p = (Some fd, m')"
  shows "fst (getTrebleFrequency m p) =
     js_div (Num (\<Sum>k = length fd * 5 div 8..<length fd. real (unat (fd ! k))))
            (Num (real (length fd) - real (length fd * 5 div 8)))"
  using assms by (simp add: getTrebleFrequency_def band_bounds sum_loop_Num Let_def)

lemma demo_bass_sum: "(\<Sum>k = 0..<16. real (unat (demo_bytes ! k))) = 16 * 240"
proof -
  have "(\<Sum>k = 0..<16. real (unat (demo_bytes ! k))) = (\<Sum>k = 0..<16::nat. 240)"
    by (rule sum.cong) (auto simp add: demo_bytes_def nth_append)
  then show ?thesis by simp
qed

lemma demo_mid_sum: "(\<Sum>k = 16..<80. real (unat (demo_bytes ! k))) = 64 * 100"
proof -
  have "(\<Sum>k = 16..<80. real (unat (demo_bytes ! k))) = (\<Sum>k = 16..<80::nat. 100)"
    by (rule sum.cong) (auto simp add: demo_bytes_def nth_append)
  then show ?thesis by simp
qed

lemma demo_treble_sum: "(\<Sum>k = 80..<128. real (unat (demo_bytes ! k))) = 48 * 20"
proof -
  have "(\<Sum>k = 80..<128. real (unat (demo_bytes ! k))) = (\<Sum>k = 80..<128::nat. 20)"
    by (rule sum.cong) (auto simp add: demo_bytes_def nth_append)
  then show ?thesis by simp
qed

lemma demo_bounds:
  "bassRange 128 = 16" "midStart 128 = 16" "midEnd 128 = 80" "trebleStart 128 = 80"
  by (simp_all add: bassRange_def midStart_def midEnd_def trebleStart_def Math_floor_def)

lemma demo_bass: "fst (getBassFrequency demo_utils demo_platform) = Num 240"
proof -
  have d: "(128::nat) div 8 = 16" by simp
  from bass_value [OF demo_sample, unfolded demo_length d demo_bass_sum] show ?thesis by simp
qed

text \<open>C2: for a snapshot of length N the loop bounds are N div 8 and 5N div 8; the three
  index ranges [0, N div 8), [N div 8, 5N div 8) and [5N div 8, N) cover [0, N) and are
  pairwise disjoint; the value of a band whose range is not empty is the sum of the
  samples in the range divided by their number.\<close>

theorem band_ranges_partition_and_average:
  assumes "getFrequencyData m p = (Some fd, m')"
  shows "bassRange (length fd) = length fd div 8
     \<and> midStart (length fd) = length fd div 8
     \<and> midEnd (length fd) = length fd * 5 div 8
     \<and> trebleStart (length fd) = length fd * 5 div 8
     \<and> {0..<bassRange (length fd)} \<union> {midStart (length fd)..<midEnd (length fd)}
           \<union> {trebleStart (length fd)..<length fd} = {0..<length fd}
     \<and> {0..<bassRange (length fd)} \<inter> {midStart (length fd)..<midEnd (length fd)} = {}
     \<and> {0..<bassRange (length fd)} \<inter> {trebleStart (length fd)..<length fd} = {}
     \<and> {midStart (length fd)..<midEnd (length fd)} \<inter> {trebleStart (length fd)..<length fd} = {}
     \<and> (0 < bassRange (length fd) \<longrightarrow>
         fst (getBassFrequency m p) =
           Num ((\<Sum>k = 0..<bassRange (length fd). real (unat (fd ! k)))
                / real (card {0..<bassRange (length fd)})))
     \<and> (midStart (length fd) < midEnd (length fd) \<longrightarrow>
         fst (getMidFrequency m p) =
           Num ((\<Sum>k = midStart (length fd)..<midEnd (length fd). real (unat (fd ! k)))
                / real (card {midStart (length fd)..<midEnd (length fd)})))
     \<and> (trebleStart (length fd) < length fd \<longrightarrow>
         fst (getTrebleFrequency m p) =
           Num ((\<Sum>k = trebleStart (length fd)..<length fd. real (unat (fd ! k)))
                / real (card {trebleStart (length fd)..<length fd})))"
proof -
  have bounds: "bassRange (length fd) = length fd div 8 \<and> midStart (length fd) = length fd div 8
     \<and> midEnd (length fd) = length fd * 5 div 8 \<and> trebleStart (length fd) = length fd * 5 div 8"
    by (simp add: band_bounds)
  have cover: "{0..<bassRange (length fd)} \<union> {midStart (length fd)..<midEnd (length fd)}
           \<union> {trebleStart (length fd)..<length fd} = {0..<length fd}"
    unfolding band_bounds by auto
  have d1: "{0..<bassRange (length fd)} \<inter> {midStart (length fd)..<midEnd (length fd)} = {}"
    unfolding band_bounds by auto
  have d2: "{0..<bassRange (length fd)} \<inter> {trebleStart (length fd)..<length fd} = {}"
    unfolding band_bounds by auto
  have d3: "{midStart (length fd)..<midEnd (length fd)} \<inter> {trebleStart (length fd)..<length fd} = {}"
    unfolding band_bounds by auto
  have bass: "fst (getBassFrequency m p) =
           Num ((\<Sum>k = 0..<bassRange (length fd). real (unat (fd ! k)))
                / real (card {0..<bassRange (length fd)}))"
    if "0 < bassRange (length fd)"
    using that bass_value [OF assms] by (simp add: band_bounds)
  have mid: "fst (getMidFrequency m p) =
           Num ((\<Sum>k = midStart (length fd)..<midEnd (length fd). real (unat (fd ! k)))
                / real (card {midStart (length fd)..<midEnd (length fd)}))"
    if "midStart (length fd) < midEnd (length fd)"
    using that mid_value [OF assms] by (simp add: band_bounds of_nat_diff)
  have treble: "fst (getTrebleFrequency m p) =
           Num ((\<Sum>k = trebleStart (length fd)..<length fd. real (unat (fd ! k)))
                / real (card {trebleStart (length fd)..<length fd}))"
    if "trebleStart (length fd) < length fd"
    using that treble_value [OF assms] by (simp add: band_bounds of_nat_diff)
  from bounds cover d1 d2 d3 bass mid treble show ?thesis by blast
qed

theorem band_ranges_partition_and_average_witness:
  "getFrequencyData demo_utils demo_platform =
     (Some demo_bytes, demo_utils\<lparr>dataArray := Some demo_bytes\<rparr>)
 \<and> length demo_bytes = 128
 \<and> fst (getBassFrequency demo_utils demo_platform) = Num 240
 \<and> fst (getMidFrequency demo_utils demo_platform) = Num 100
 \<and> fst (getTrebleFrequency demo_utils demo_platform) = Num 20"
  using band_ranges_partition_and_average [OF demo_sample,
      unfolded demo_length demo_bounds demo_bass_sum demo_mid_sum demo_treble_sum]
  by (simp add: demo_sample demo_length)

lemma bass_NaN_iff:
  assumes "getFrequencyData m p = (Some fd, m')"
  shows "fst (getBassFrequency m p) = NaN \<longleftrightarrow> length fd < 8"
proof (cases "length fd < 8")
  case True
  then show ?thesis using bass_value [OF assms] by simp
next
  case False
  then have "0 < length fd div 8" by (simp add: div_greater_zero_iff)
  with False show ?thesis using bass_value [OF assms] by simp
qed

lemma mid_NaN_iff:
  assumes "getFrequencyData m p = (Some fd, m')"
  shows "fst (getMidFrequency m p) = NaN \<longleftrightarrow> length fd \<le> 1"
proof (cases "length fd \<le> 1")
  case True
  then have "length fd = 0 \<or> length fd = 1" by arith
  then show ?thesis using mid_value [OF assms] by auto
next
  case False
  then have "length fd div 8 < length fd * 5 div 8" by arith
  with False show ?thesis using mid_value [OF assms] by simp
qed

lemma treble_NaN_iff:
  assumes "getFrequencyData m p = (Some fd, m')"
  shows "fst (getTrebleFrequency m p) = NaN \<longleftrightarrow> length fd = 0"
proof (cases "length fd = 0")
  case True
  then show ?thesis using treble_value [OF assms] by simp
next
  case False
  then have "length fd * 5 div 8 < length fd" by arith
  with False show ?thesis using treble_value [OF assms] by simp
qed

text \<open>C10: for a snapshot of at least 8 samples the three divisors are positive and the
  three band values are numbers. The divisor of the bass band is zero exactly for fewer
  than 8 samples, that of the mid band exactly for at most one sample, that of the treble
  band exactly for the empty snapshot; the bass value of a snapshot of fewer than 8
  samples, and the mid value of a snapshot of at most one sample, is the NaN that 0 / 0
  gives.\<close>

theorem band_divisors_nonzero_from_8:
  assumes "getFrequencyData m p = (Some fd, m')"
  shows "(8 \<le> length fd \<longrightarrow>
            0 < real (bassRange (length fd))
          \<and> 0 < real (midEnd (length fd)) - real (midStart (length fd))
          \<and> 0 < real (length fd) - real (trebleStart (length fd))
          \<and> fst (getBassFrequency m p) \<noteq> NaN
          \<and> fst (getMidFrequency m p) \<noteq> NaN
          \<and> fst (getTrebleFrequency m p) \<noteq> NaN)
       \<and> (real (bassRange (length fd)) = 0 \<longleftrightarrow> length fd < 8)
       \<and> (real (midEnd (length fd)) - real (midStart (length fd)) = 0 \<longleftrightarrow> length fd \<le> 1)
       \<and> (real (length fd) - real (trebleStart (length fd)) = 0 \<longleftrightarrow> length fd = 0)
       \<and> (length fd < 8 \<longrightarrow> fst (getBassFrequency m p) = NaN)
       \<and> (length fd \<le> 1 \<longrightarrow> fst (getMidFrequency m p) = NaN)"
proof -
  have "length fd div 8 = 0 \<longleftrightarrow> length fd < 8" by arith
  then have b: "real (bassRange (length fd)) = 0 \<longleftrightarrow> length fd < 8"
    by (simp add: band_bounds)
  have "length fd * 5 div 8 = length fd div 8 \<longleftrightarrow> length fd \<le> 1" by arith
  moreover have "length fd div 8 \<le> length fd * 5 div 8" by arith
  ultimately have md: "real (midEnd (length fd)) - real (midStart (length fd)) = 0 \<longleftrightarrow> length fd \<le> 1"
    by (simp add: band_bounds)
  have "length fd = length fd * 5 div 8 \<longleftrightarrow> length fd = 0" by arith
  then have t: "real (length fd) - real (trebleStart (length fd)) = 0 \<longleftrightarrow> length fd = 0"
    by (simp add: band_bounds)
  have pos: "0 < real (bassRange (length fd))
          \<and> 0 < real (midEnd (length fd)) - real (midStart (length fd))
          \<and> 0 < real (length fd) - real (trebleStart (length fd))" if "8 \<le> length fd"
  proof -
    have "0 < length fd div 8" "length fd div 8 < length fd * 5 div 8"
      "length fd * 5 div 8 < length fd" using that by arith+
    then show ?thesis by (simp add: band_bounds)
  qed
  from b md t pos bass_NaN_iff [OF assms] mid_NaN_iff [OF assms] treble_NaN_iff [OF assms]
  show ?thesis by auto
qed

theorem band_divisors_nonzero_from_8_witness:
  "8 \<le> length demo_bytes
 \<and> fst (getBassFrequency demo_utils demo_platform) \<noteq> NaN
 \<and> fst (getMidFrequency demo_utils demo_platform) \<noteq> NaN
 \<and> fst (getTrebleFrequency demo_utils demo_platform) \<noteq> NaN
 \<and> getFrequencyData short_utils demo_platform = (Some [240], short_utils\<lparr>dataArray := Some [240]\<rparr>)
 \<and> 0 < length [240 :: byte] \<and> length [240 :: byte] < 8
 \<and> real (bassRange (length [240 :: byte])) = 0
 \<and> fst (getBassFrequency short_utils demo_platform) = NaN
 \<and> fst (getMidFrequency short_utils demo_platform) = NaN"
  using band_divisors_nonzero_from_8 [OF demo_sample] band_divisors_nonzero_from_8 [OF short_sample]
  by (simp add: demo_length short_sample)

section \<open>Beat detection\<close>

lemma snd_getBassFrequency: "snd (getBassFrequency m p) = snd (getFrequencyData m p)"
  by (simp add: getBassFrequency_def Let_def split: prod.splits option.splits)

lemma getBassFrequency_twice:
  "fst (getBassFrequency (snd (getBassFrequency m p)) p) = fst (getBassFrequency m p)"
  unfolding snd_getBassFrequency
  by (simp add: getBassFrequency_def [of "snd (getFrequencyData m p)"] getBassFrequency_def [of m]
      getFrequencyData_twice)

lemma fst_detectBeat:
  "fst (detectBeat threshold m p) =
     js_gt (fst (getBassFrequency m p)) (case threshold of None \<Rightarrow> Num 200 | Some t \<Rightarrow> t)"
  by (simp add: detectBeat_def split: prod.splits)

lemma snd_detectBeat: "snd (detectBeat threshold m p) = snd (getFrequencyData m p)"
  by (simp add: detectBeat_def snd_getBassFrequency [symmetric] split: prod.splits)

text \<open>C6: \<^verbatim>\<open>detectBeat\<close> without an argument is \<^verbatim>\<open>detectBeat(200)\<close>; its result is the
  comparison \<^verbatim>\<open>bassLevel > threshold\<close>, which for a snapshot with a bass range that is not
  empty says that the mean of the bass samples is strictly above the threshold; a beat
  detected at a threshold is detected at every threshold below it; and a call leaves
  nothing behind that a later call depends on: after any earlier call the result is the
  same, and the module state is the one sampling alone leaves.\<close>

theorem detectBeat_iff_bass_exceeds_threshold:
  "fst (detectBeat None m p) = fst (detectBeat (Some (Num 200)) m p)
 \<and> fst (detectBeat (Some t) m p) = js_gt (fst (getBassFrequency m p)) t
 \<and> (getFrequencyData m p = (Some fd, m') \<and> 0 < bassRange (length fd) \<longrightarrow>
      fst (detectBeat (Some (Num T)) m p) =
        (T < (\<Sum>k = 0..<bassRange (length fd). real (unat (fd ! k))) / real (bassRange (length fd))))
 \<and> (fst (detectBeat (Some t) m p) \<and> js_lt t' t \<longrightarrow> fst (detectBeat (Some t') m p))
 \<and> fst (detectBeat th (snd (detectBeat th0 m p)) p) = fst (detectBeat th m p)
 \<and> snd (detectBeat th m p) = snd (getFrequencyData m p)"
proof -
  have dflt: "fst (detectBeat None m p) = fst (detectBeat (Some (Num 200)) m p)"
    by (simp add: fst_detectBeat)
  have gt: "fst (detectBeat (Some t) m p) = js_gt (fst (getBassFrequency m p)) t"
    by (simp add: fst_detectBeat)
  have mean: "fst (detectBeat (Some (Num T)) m p) =
        (T < (\<Sum>k = 0..<bassRange (length fd). real (unat (fd ! k))) / real (bassRange (length fd)))"
    if "getFrequencyData m p = (Some fd, m')" "0 < bassRange (length fd)"
    using that(2) bass_value [OF that(1)] by (simp add: fst_detectBeat js_gt_def band_bounds)
  have mono: "fst (detectBeat (Some t') m p)" if "fst (detectBeat (Some t) m p)" "js_lt t' t"
    using that js_lt_trans [of t' t "fst (getBassFrequency m p)"] by (simp add: fst_detectBeat js_gt_def)
  have twice: "fst (detectBeat th (snd (detectBeat th0 m p)) p) = fst (detectBeat th m p)"
    unfolding snd_detectBeat fst_detectBeat
    using getBassFrequency_twice [of m p] by (simp add: snd_getBassFrequency)
  from dflt gt mean mono twice snd_detectBeat show ?thesis by blast
qed

theorem detectBeat_iff_bass_exceeds_threshold_witness:
  "getFrequencyData demo_utils demo_platform =
     (Some demo_bytes, demo_utils\<lparr>dataArray := Some demo_bytes\<rparr>)
 \<and> 0 < bassRange (length demo_bytes)
 \<and> fst (detectBeat None demo_utils demo_platform)
 \<and> fst (detectBeat (Some (Num 200)) demo_utils demo_platform)
 \<and> js_lt (Num 100) (Num 200)
 \<and> fst (detectBeat (Some (Num 100)) demo_utils demo_platform)
 \<and> \<not> fst (detectBeat (Some (Num 240)) demo_utils demo_platform)"
  using detectBeat_iff_bass_exceeds_threshold
    [of demo_utils demo_platform "Num 200" demo_bytes "demo_utils\<lparr>dataArray := Some demo_bytes\<rparr>"
        200 "Num 100"]
    detectBeat_iff_bass_exceeds_threshold [of demo_utils demo_platform "Num 240"]
  by (simp add: demo_sample demo_length demo_bounds demo_bass js_gt_def)

section \<open>Volume\<close>

lemma clamp_cases:
  "Math_max (Num 0) (Math_min (Num 1) v) =
     (case v of NaN \<Rightarrow> NaN | NegInf \<Rightarrow> Num 0 | PosInf \<Rightarrow> Num 1
      | Num r \<Rightarrow> Num (if r < 0 then 0 else if 1 < r then 1 else r))"
  by (cases v) auto

lemma clamp_in_unit:
  "v \<noteq> NaN \<Longrightarrow> \<exists>r. Math_max (Num 0) (Math_min (Num 1) v) = Num r \<and> 0 \<le> r \<and> r \<le> 1"
  unfolding clamp_cases by (cases v) simp_all

lemma setVolume_applies:
  assumes "gainNode (fst w) = Some g" "audioContext (fst w) = Some c"
    and "Math_max (Num 0) (Math_min (Num 1) v) = Num r" and "0 \<le> r" and "r \<le> 1"
  shows "setVolume v w = (fst w, (snd w)\<lparr>gain_events := (g, r, currentTime (snd w)) # gain_events (snd w)\<rparr>)"
proof -
  have "(2::real) ^ 103 < 2 ^ 127" by (rule power_strict_increasing) simp_all
  then have "1 < (2::real) ^ 128 - 2 ^ 103" by simp
  with assms show ?thesis by (simp add: setVolume_def setValueAtTime_def)
qed

lemma float32_0: "float32 0 = 0"
  by (simp add: float32_def)

lemma float32_1: "float32 1 = 1"
  by (simp add: float32_def binade_def pow2_def round_ties_even_def numeral_eq_Suc)

lemma float32_7_10: "float32 (7 / 10) = 11744051 / 16777216"
  by (simp add: float32_def binade_def pow2_def round_ties_even_def numeral_eq_Suc)

lemma map_of_keyed:
  "g \<in> fst ` set xs \<Longrightarrow> map_of (map (\<lambda>ow. (fst ow, h (fst ow))) xs) g = Some (h g)"
  by (induction xs) auto

lemma quantum_running:
  assumes "(g, c) \<in> set (gain_owner p)" and "state_of p c = Some Running"
  shows "gain_level (render_quantum c (p\<lparr>gain_events := (g, r, currentTime p) # gain_events p\<rparr>)) g
       = float32 r"
proof -
  let ?q = "p\<lparr>gain_events := (g, r, currentTime p) # gain_events p\<rparr>"
  let ?h = "\<lambda>n. case due_value ?q n of None \<Rightarrow> gain_level ?q n | Some r \<Rightarrow> float32 r"
  have due: "due_value ?q g = Some r" by (simp add: due_value_def)
  from assms(1) have "(g, c) \<in> set (filter (\<lambda>ow. snd ow = c) (gain_owner p))" by simp
  then have "g \<in> fst ` set (filter (\<lambda>ow. snd ow = c) (gain_owner p))" by force
  from map_of_keyed [OF this, of ?h]
  have "map_of (map (\<lambda>ow. (fst ow, ?h (fst ow))) (filter (\<lambda>ow. snd ow = c) (gain_owner p))) g
      = Some (float32 r)"
    by (simp add: due)
  then show ?thesis using assms(2)
    by (simp add: gain_level_def render_quantum_def state_of_def map_add_def)
qed

lemma quantum_not_running:
  "state_of p c \<noteq> Some Running \<Longrightarrow> render_quantum c p = p"
  by (simp add: render_quantum_def)

text \<open>C5 (as amended): with the gain node and the context in place, \<^verbatim>\<open>setVolume\<close> clamps
  the level to [0, 1]: a level below 0 becomes 0, a level above 1 becomes 1, a level in
  [0, 1] stays. For every level that is a number (not NaN) it hands the clamped value to
  the gain parameter in one \<^verbatim>\<open>setValueAtTime\<close> at the current time of the context, so as a
  step, with no ramp, and changes nothing else: what the gain stage holds is the same
  right after the call. The gain stage takes the value when its context renders the next
  quantum, which only a running context does, and then holds the single-precision float
  of the clamped value; 0 and 1 are such floats. NaN, which is neither below 0 nor above 1
  nor in [0, 1], is refused by the platform and changes nothing.\<close>

theorem setVolume_schedules_clamped_gain:
  assumes "gainNode (fst w) = Some g" and "audioContext (fst w) = Some c"
  shows "(js_lt v (Num 0) \<longrightarrow> Math_max (Num 0) (Math_min (Num 1) v) = Num 0)
     \<and> (js_gt v (Num 1) \<longrightarrow> Math_max (Num 0) (Math_min (Num 1) v) = Num 1)
     \<and> (0 \<le> x \<and> x \<le> 1 \<longrightarrow> Math_max (Num 0) (Math_min (Num 1) (Num x)) = Num x)
     \<and> (v \<noteq> NaN \<longrightarrow> (\<exists>r'. Math_max (Num 0) (Math_min (Num 1) v) = Num r'))
     \<and> (Math_max (Num 0) (Math_min (Num 1) v) = Num r \<longrightarrow>
            0 \<le> r \<and> r \<le> 1
          \<and> setVolume v w =
               (fst w, (snd w)\<lparr>gain_events := (g, r, currentTime (snd w)) # gain_events (snd w)\<rparr>)
          \<and> gain_level (snd (setVolume v w)) g = gain_level (snd w) g
          \<and> ((g, c) \<in> set (gain_owner (snd w)) \<and> state_of (snd w) c = Some Running \<longrightarrow>
               gain_level (render_quantum c (snd (setVolume v w))) g = float32 r)
          \<and> (state_of (snd w) c \<noteq> Some Running \<longrightarrow>
               gain_level (render_quantum c (snd (setVolume v w))) g = gain_level (snd w) g))
     \<and> float32 0 = 0 \<and> float32 1 = 1
     \<and> setVolume NaN w = w
     \<and> fst (setVolume v w) = fst w"
proof -
  have low: "Math_max (Num 0) (Math_min (Num 1) v) = Num 0" if "js_lt v (Num 0)"
    using that by (cases v) (auto simp: clamp_cases)
  have high: "Math_max (Num 0) (Math_min (Num 1) v) = Num 1" if "js_gt v (Num 1)"
    using that by (cases v) (auto simp: clamp_cases js_gt_def)
  have keep: "Math_max (Num 0) (Math_min (Num 1) (Num x)) = Num x" if "0 \<le> x \<and> x \<le> 1"
    using that by (auto simp: clamp_cases)
  have some: "\<exists>r'. Math_max (Num 0) (Math_min (Num 1) v) = Num r'" if "v \<noteq> NaN"
    using clamp_in_unit [OF that] by blast
  have every: "0 \<le> r \<and> r \<le> 1
          \<and> setVolume v w =
               (fst w, (snd w)\<lparr>gain_events := (g, r, currentTime (snd w)) # gain_events (snd w)\<rparr>)
          \<and> gain_level (snd (setVolume v w)) g = gain_level (snd w) g
          \<and> ((g, c) \<in> set (gain_owner (snd w)) \<and> state_of (snd w) c = Some Running \<longrightarrow>
               gain_level (render_quantum c (snd (setVolume v w))) g = float32 r)
          \<and> (state_of (snd w) c \<noteq> Some Running \<longrightarrow>
               gain_level (render_quantum c (snd (setVolume v w))) g = gain_level (snd w) g)"
    if r: "Math_max (Num 0) (Math_min (Num 1) v) = Num r"
  proof -
    from r have "v \<noteq> NaN" by (cases v) auto
    from clamp_in_unit [OF this] r have b: "0 \<le> r" "r \<le> 1" by auto
    note sv = setVolume_applies [OF assms r b]
    have same: "gain_level (snd (setVolume v w)) g = gain_level (snd w) g"
      by (simp add: sv gain_level_def)
    have run: "gain_level (render_quantum c (snd (setVolume v w))) g = float32 r"
      if "(g, c) \<in> set (gain_owner (snd w))" "state_of (snd w) c = Some Running"
      using quantum_running [OF that, of r] by (simp add: sv)
    have idle: "gain_level (render_quantum c (snd (setVolume v w))) g = gain_level (snd w) g"
      if "state_of (snd w) c \<noteq> Some Running"
    proof -
      from that have "state_of (snd (setVolume v w)) c \<noteq> Some Running"
        by (simp add: sv state_of_def)
      from quantum_not_running [OF this] same show ?thesis by simp
    qed
    from b sv same run idle show ?thesis by blast
  qed
  have same: "fst (setVolume v w) = fst w"
    by (simp add: setVolume_def Let_def split: option.splits sum.splits)
  have nan: "setVolume NaN w = w"
    using assms by (simp add: setVolume_def setValueAtTime_def)
  from low high keep some every float32_0 float32_1 nan same show ?thesis by blast
qed

theorem setVolume_schedules_clamped_gain_witness:
  "gainNode demo_utils = Some 3 \<and> audioContext demo_utils = Some 0
 \<and> (3, 0) \<in> set (gain_owner demo_platform) \<and> state_of demo_platform 0 = Some Running
 \<and> state_of suspended_platform 0 \<noteq> Some Running
 \<and> js_lt (Num (- 2)) (Num 0)
 \<and> Math_max (Num 0) (Math_min (Num 1) (Num (- 2))) = Num 0
 \<and> gain_events (snd (setVolume (Num (- 2)) (demo_utils, demo_platform))) = [(3, 0, 0)]
 \<and> gain_level (render_quantum 0 (snd (setVolume (Num (- 2)) (demo_utils, demo_platform)))) 3 = 0
 \<and> js_gt PosInf (Num 1)
 \<and> gain_events (snd (setVolume PosInf (demo_utils, demo_platform))) = [(3, 1, 0)]
 \<and> gain_level (render_quantum 0 (snd (setVolume PosInf (demo_utils, demo_platform)))) 3 = 1
 \<and> gain_events (snd (setVolume (Num (7 / 10)) (demo_utils, demo_platform))) = [(3, 7 / 10, 0)]
 \<and> gain_level (snd (setVolume (Num (7 / 10)) (demo_utils, demo_platform))) 3 = 1
 \<and> gain_level (render_quantum 0 (snd (setVolume (Num (7 / 10)) (demo_utils, demo_platform)))) 3
      = float32 (7 / 10)
 \<and> gain_level (render_quantum 0 (snd (setVolume (Num (7 / 10)) (demo_utils, suspended_platform)))) 3
      = 1"
proof -
  have g: "gainNode (fst (demo_utils, demo_platform)) = Some 3"
    and c: "audioContext (fst (demo_utils, demo_platform)) = Some 0"
    and g': "gainNode (fst (demo_utils, suspended_platform)) = Some 3"
    and c': "audioContext (fst (demo_utils, suspended_platform)) = Some 0"
    by (simp_all add: demo_utils_def)
  have m: "js_lt (Num (- 2)) (Num 0)" "js_gt PosInf (Num 1)"
    "Math_max (Num 0) (Math_min (Num 1) PosInf) = Num 1"
    "Math_max (Num 0) (Math_min (Num 1) (Num (7 / 10))) = Num (7 / 10)"
    by (simp_all add: js_gt_def)
  have p: "(3, 0) \<in> set (gain_owner demo_platform)" "state_of demo_platform 0 = Some Running"
    "state_of suspended_platform 0 \<noteq> Some Running" "gain_events demo_platform = []"
    "currentTime demo_platform = 0" "gain_level demo_platform 3 = 1"
    "gain_level suspended_platform 3 = 1"
    by (simp_all add: demo_platform_def suspended_platform_def state_of_def gain_level_def)
  note t1 = setVolume_schedules_clamped_gain
    [OF g c, of "Num (- 2)" "7 / 10" 0, unfolded fst_conv snd_conv]
  from t1 m(1) have m0: "Math_max (Num 0) (Math_min (Num 1) (Num (- 2))) = Num 0" by blast
  note t2 = setVolume_schedules_clamped_gain
    [OF g c, of PosInf "7 / 10" 1, unfolded fst_conv snd_conv]
  note t3 = setVolume_schedules_clamped_gain
    [OF g c, of "Num (7 / 10)" "7 / 10" "7 / 10", unfolded fst_conv snd_conv]
  note t4 = setVolume_schedules_clamped_gain
    [OF g' c', of "Num (7 / 10)" "7 / 10" "7 / 10", unfolded fst_conv snd_conv]
  from t1 m0 have a1: "setVolume (Num (- 2)) (demo_utils, demo_platform)
      = (demo_utils, demo_platform\<lparr>gain_events := (3, 0, currentTime demo_platform)
           # gain_events demo_platform\<rparr>)" by blast
  from t1 m0 p(1,2)
  have q1: "gain_level (render_quantum 0 (snd (setVolume (Num (- 2)) (demo_utils, demo_platform)))) 3
      = float32 0" by blast
  from t2 m(3) have a2: "setVolume PosInf (demo_utils, demo_platform)
      = (demo_utils, demo_platform\<lparr>gain_events := (3, 1, currentTime demo_platform)
           # gain_events demo_platform\<rparr>)" by blast
  from t2 m(3) p(1,2)
  have q2: "gain_level (render_quantum 0 (snd (setVolume PosInf (demo_utils, demo_platform)))) 3
      = float32 1" by blast
  from t3 m(4) have a3: "setVolume (Num (7 / 10)) (demo_utils, demo_platform)
      = (demo_utils, demo_platform\<lparr>gain_events := (3, 7 / 10, currentTime demo_platform)
           # gain_events demo_platform\<rparr>)" by blast
  from t3 m(4)
  have l3: "gain_level (snd (setVolume (Num (7 / 10)) (demo_utils, demo_platform))) 3
      = gain_level demo_platform 3" by blast
  from t3 m(4) p(1,2)
  have q3: "gain_level (render_quantum 0 (snd (setVolume (Num (7 / 10)) (demo_utils, demo_platform)))) 3
      = float32 (7 / 10)" by blast
  from t4 m(4) p(3)
  have q4:
    "gain_level (render_quantum 0 (snd (setVolume (Num (7 / 10)) (demo_utils, suspended_platform)))) 3
      = gain_level suspended_platform 3" by blast
  have d: "gainNode demo_utils = Some 3" "audioContext demo_utils = Some 0"
    by (simp_all add: demo_utils_def)
  have e: "gain_events (snd (setVolume (Num (- 2)) (demo_utils, demo_platform))) = [(3, 0, 0)]"
    "gain_events (snd (setVolume PosInf (demo_utils, demo_platform))) = [(3, 1, 0)]"
    "gain_events (snd (setVolume (Num (7 / 10)) (demo_utils, demo_platform))) = [(3, 7 / 10, 0)]"
    by (simp_all add: a1 a2 a3 p(4,5))
  show ?thesis
    by (simp add: d m m0 p e q1 q2 q3 q4 l3 float32_0 float32_1)
qed

text \<open>On the example state, \<^verbatim>\<open>setVolume(0.7)\<close> leaves the gain stage at 1 when it returns;
  the running context then brings it to the float of 0.7, which is not 0.7; a suspended
  context leaves it at 1.\<close>

theorem setVolume_gain_not_exact_counterexample:
  "gain_level (snd (setVolume (Num (7 / 10)) (demo_utils, demo_platform))) 3 = 1
 \<and> gain_level (render_quantum 0 (snd (setVolume (Num (7 / 10)) (demo_utils, demo_platform)))) 3
      = 11744051 / 16777216
 \<and> (11744051 / 16777216 :: real) \<noteq> 7 / 10
 \<and> gain_level (render_quantum 0 (snd (setVolume (Num (7 / 10)) (demo_utils, suspended_platform)))) 3
      = 1"
proof -
  have sv: "setVolume (Num (7 / 10)) (demo_utils, demo_platform) =
      (demo_utils, demo_platform\<lparr>gain_events := [(3, 7 / 10, 0)]\<rparr>)"
    "setVolume (Num (7 / 10)) (demo_utils, suspended_platform) =
      (demo_utils, suspended_platform\<lparr>gain_events := [(3, 7 / 10, 0)]\<rparr>)"
    by (simp_all add: setVolume_def setValueAtTime_def demo_utils_def demo_platform_def
        suspended_platform_def)
  show ?thesis unfolding sv
    by (simp add: render_quantum_def gain_level_def due_value_def state_of_def demo_platform_def
        suspended_platform_def float32_7_10)
qed

section \<open>Teardown\<close>

lemma cleanup_nodes:
  "source (fst (cleanupAudioContext w)) = None
 \<and> analyser (fst (cleanupAudioContext w)) = None
 \<and> gainNode (fst (cleanupAudioContext w)) = None
 \<and> dataArray (fst (cleanupAudioContext w)) = None"
  by (simp add: cleanupAudioContext_def Let_def split: option.splits prod.splits)

lemma state_of_disconnect [simp]: "state_of (disconnect a p) c = state_of p c"
  by (simp add: state_of_def disconnect_def)

lemma state_of_close [simp]: "state_of (close c p) c = Some Closed"
  by (simp add: state_of_def close_def)

lemma cleanup_context:
  "(case audioContext (fst (cleanupAudioContext w)) of
      None \<Rightarrow> True
    | Some c \<Rightarrow> state_of (snd (cleanupAudioContext w)) c = Some Closed)"
  by (auto simp add: cleanupAudioContext_def Let_def split: option.splits prod.splits)

lemma cleanup_closes:
  "audioContext (fst w) = Some c \<Longrightarrow> state_of (snd (cleanupAudioContext w)) c = Some Closed"
  by (auto simp add: cleanupAudioContext_def Let_def split: option.splits prod.splits)

lemma cleanup_torn_down:
  assumes "source (fst w) = None" "analyser (fst w) = None" "gainNode (fst w) = None"
    "dataArray (fst w) = None"
    "case audioContext (fst w) of None \<Rightarrow> True | Some c \<Rightarrow> state_of (snd w) c = Some Closed"
  shows "cleanupAudioContext w = w"
  using assms by (cases w) (auto simp add: cleanupAudioContext_def Let_def split: option.splits)

text \<open>C4: \<^verbatim>\<open>cleanupAudioContext\<close> after \<^verbatim>\<open>cleanupAudioContext\<close> changes nothing; after one
  call source, analyser, gain node and data array are \<^verbatim>\<open>null\<close>, the context that was held
  is closed, and a context still held is a closed one; on the module's initial state
  (every variable \<^verbatim>\<open>null\<close>) the call changes nothing. The function has no way to raise:
  its body is inside a \<^verbatim>\<open>try\<close>, and it is defined on every state.\<close>

theorem cleanupAudioContext_idempotent:
  "cleanupAudioContext (cleanupAudioContext w) = cleanupAudioContext w
 \<and> source (fst (cleanupAudioContext w)) = None
 \<and> analyser (fst (cleanupAudioContext w)) = None
 \<and> gainNode (fst (cleanupAudioContext w)) = None
 \<and> dataArray (fst (cleanupAudioContext w)) = None
 \<and> (\<forall>c. audioContext (fst w) = Some c \<longrightarrow> state_of (snd (cleanupAudioContext w)) c = Some Closed)
 \<and> (\<forall>c. audioContext (fst (cleanupAudioContext w)) = Some c \<longrightarrow>
        state_of (snd (cleanupAudioContext w)) c = Some Closed)
 \<and> cleanupAudioContext (initial_utils, p) = (initial_utils, p)"
proof -
  have twice: "cleanupAudioContext (cleanupAudioContext w) = cleanupAudioContext w"
    using cleanup_nodes [of w] cleanup_context [of w] by (intro cleanup_torn_down) simp_all
  have init: "cleanupAudioContext (initial_utils, p) = (initial_utils, p)"
    by (rule cleanup_torn_down) (simp_all add: initial_utils_def)
  have ctx: "\<forall>c. audioContext (fst (cleanupAudioContext w)) = Some c \<longrightarrow>
        state_of (snd (cleanupAudioContext w)) c = Some Closed"
    using cleanup_context [of w] by (auto split: option.splits)
  from twice init ctx cleanup_nodes [of w] cleanup_closes [of w] show ?thesis by blast
qed

theorem cleanupAudioContext_idempotent_witness:
  "audioContext (fst (demo_utils, demo_platform)) = Some 0
 \<and> state_of (snd (cleanupAudioContext (demo_utils, demo_platform))) 0 = Some Closed
 \<and> cleanupAudioContext (cleanupAudioContext (demo_utils, demo_platform))
      = cleanupAudioContext (demo_utils, demo_platform)
 \<and> fst (cleanupAudioContext (demo_utils, demo_platform)) = initial_utils
 \<and> edges (snd (cleanupAudioContext (demo_utils, demo_platform))) = []
 \<and> audioContext (fst (cleanupAudioContext (demo_utils, close 0 demo_platform))) = Some 0
 \<and> state_of (snd (cleanupAudioContext (demo_utils, close 0 demo_platform))) 0 = Some Closed"
  using cleanupAudioContext_idempotent [of "(demo_utils, demo_platform)"]
    cleanupAudioContext_idempotent [of "(demo_utils, close 0 demo_platform)"]
  by (simp add: cleanupAudioContext_def demo_utils_def demo_platform_def demo_analyser_def
      initial_utils_def disconnect_def close_def state_of_def Let_def)

section \<open>One tap per element\<close>

lemma count_list_distinct: "distinct xs \<Longrightarrow> x \<in> set xs \<Longrightarrow> count_list xs x = 1"
  by (induction xs) auto

lemma count_list_le1: "distinct xs \<Longrightarrow> count_list xs x \<le> 1"
  by (induction xs) auto

lemma filter_fst_none: "el \<notin> fst ` set ts \<Longrightarrow> filter (\<lambda>t. fst t = el) ts = []"
  by (auto simp: filter_empty_conv)

lemma filter_fst_distinct:
  "distinct (map fst ts) \<Longrightarrow> (el, s) \<in> set ts \<Longrightarrow> filter (\<lambda>t. fst t = el) ts = [(el, s)]"
proof (induction ts)
  case Nil
  then show ?case by simp
next
  case (Cons t ts)
  show ?case
  proof (cases "fst t = el")
    case True
    with Cons.prems have "el \<notin> fst ` set ts" "t = (el, s)" by (auto simp: image_iff)
    then show ?thesis by (simp add: filter_fst_none)
  next
    case False
    with Cons show ?thesis by auto
  qed
qed

lemma filter_fst_le1:
  "distinct (map fst ts) \<Longrightarrow> length (filter (\<lambda>t. fst t = el) ts) \<le> 1"
proof (induction ts)
  case Nil
  then show ?case by simp
next
  case (Cons t ts)
  show ?case
  proof (cases "fst t = el")
    case True
    with Cons.prems have "el \<notin> fst ` set ts" by auto
    with True show ?thesis by (simp add: filter_fst_none)
  next
    case False
    with Cons show ?thesis by auto
  qed
qed

lemma taps_of_bound:
  "platform_ok p \<Longrightarrow> (el, s) \<in> set (tapped p) \<Longrightarrow> taps_of p el = [s]"
  by (simp add: platform_ok_def taps_of_def filter_fst_distinct)

lemma taps_of_le1: "platform_ok p \<Longrightarrow> length (taps_of p el) \<le> 1"
  using filter_fst_le1 [of "tapped p" el] by (simp add: platform_ok_def taps_of_def)

lemma signal_paths_le1:
  assumes "platform_ok p"
  shows "signal_paths m p el \<le> 1"
proof (cases "\<exists>c a g. audioContext m = Some c \<and> analyser m = Some a \<and> gainNode m = Some g")
  case False
  then show ?thesis by (auto simp: signal_paths_def split: option.splits)
next
  case True
  then obtain c a g where m: "audioContext m = Some c" "analyser m = Some a" "gainNode m = Some g"
    by blast
  have d: "distinct (edges p)" using assms by (simp add: platform_ok_def)
  have prod: "count_list (edges p) x * count_list (edges p) y * count_list (edges p) z \<le> 1" for x y z
    using count_list_le1 [OF d, of x] count_list_le1 [OF d, of y] count_list_le1 [OF d, of z]
    by (metis (no_types, opaque_lifting) le_antisym less_one linorder_not_less mult.right_neutral mult_is_0 nat_le_linear)
  consider "taps_of p el = []" | s where "taps_of p el = [s]"
    using taps_of_le1 [OF assms, of el] by (cases "taps_of p el") auto
  then show ?thesis using prod m by cases (simp_all add: signal_paths_def)
qed

lemma signal_paths_bound:
  assumes "platform_ok p" "wired m p" "source m = Some s" "(el, s) \<in> set (tapped p)"
  shows "signal_paths m p el = 1"
proof -
  from assms(2,3) obtain c a g where m: "audioContext m = Some c" "analyser m = Some a"
    "gainNode m = Some g" and e: "(s, node_id a) \<in> set (edges p)" "(node_id a, g) \<in> set (edges p)"
    "(g, destination c) \<in> set (edges p)"
    by (auto simp: wired_def split: option.splits)
  have d: "distinct (edges p)" using assms(1) by (simp add: platform_ok_def)
  show ?thesis using m taps_of_bound [OF assms(1,4)] e
    by (simp add: signal_paths_def count_list_distinct [OF d])
qed


lemma connect_graph:
  "set (edges (connect a b p)) = insert (a, b) (set (edges p))"
  "distinct (edges p) \<Longrightarrow> distinct (edges (connect a b p))"
  "tapped (connect a b p) = tapped p"
  by (auto simp: connect_def)

lemma wire_graph:
  "set (edges (wire s a g c p)) =
     {(s, node_id a), (node_id a, g), (g, destination c)} \<union> set (edges p)"
  "distinct (edges p) \<Longrightarrow> distinct (edges (wire s a g c p))"
  "tapped (wire s a g c p) = tapped p"
  by (auto simp: wire_def connect_graph)

lemma disconnect_graph:
  "distinct (edges p) \<Longrightarrow> distinct (edges (disconnect a p))"
  "tapped (disconnect a p) = tapped p"
  by (auto simp: disconnect_def)

lemma close_graph: "edges (close c p) = edges p" "tapped (close c p) = tapped p"
  by (simp_all add: close_def)

lemma ensure_context_keeps:
  assumes "ensure_context m p = Inr (c, m', p')"
  shows "tapped p' = tapped p \<and> edges p' = edges p \<and> audioContext m' = Some c
    \<and> analyser m' = analyser m \<and> gainNode m' = gainNode m \<and> source m' = source m
    \<and> (audioContext m \<noteq> None \<longrightarrow> m' = m \<and> p' = p)"
  using assms
  by (auto simp: ensure_context_def new_AudioContext_def split: option.splits if_splits)

lemma ensure_context_fails:
  "ensure_context m p = Inl e \<Longrightarrow> audioContext m = None"
  by (auto simp: ensure_context_def split: option.splits)

lemma resume_graph: "tapped (resume c p) = tapped p" "edges (resume c p) = edges p"
  by (simp_all add: resume_def)

lemma ensure_analyser_keeps:
  assumes "ensure_analyser m p = (a, m', p')"
  shows "tapped p' = tapped p \<and> edges p' = edges p \<and> analyser m' = Some a
    \<and> audioContext m' = audioContext m \<and> gainNode m' = gainNode m \<and> source m' = source m
    \<and> (analyser m \<noteq> None \<longrightarrow> m' = m \<and> p' = p)"
  using assms
  by (auto simp: ensure_analyser_def createAnalyser_def Let_def split: option.splits)

lemma ensure_gain_keeps:
  assumes "ensure_gain c m p = (g, m', p')"
  shows "tapped p' = tapped p \<and> edges p' = edges p \<and> gainNode m' = Some g
    \<and> audioContext m' = audioContext m \<and> analyser m' = analyser m \<and> source m' = source m
    \<and> (gainNode m \<noteq> None \<longrightarrow> m' = m \<and> p' = p)"
  using assms
  by (auto simp: ensure_gain_def createGain_def Let_def split: option.splits)

lemma createMediaElementSource_graph:
  assumes "createMediaElementSource audioElement p = Inr (s, p')"
  shows "\<exists>el. audioElement = Some el \<and> el \<notin> fst ` set (tapped p)
    \<and> tapped p' = tapped p @ [(el, s)] \<and> edges p' = edges p"
  using assms by (auto simp: createMediaElementSource_def split: option.splits if_splits)

lemma createMediaElementSource_tapped:
  "el \<in> fst ` set (tapped p) \<Longrightarrow> createMediaElementSource (Some el) p = Inl InvalidStateError"
  by (simp add: createMediaElementSource_def)

lemma wired_source_None: "source m = None \<Longrightarrow> wired m p"
  by (simp add: wired_def)

lemma wired_cong:
  "wired m p \<Longrightarrow> source m' = source m \<Longrightarrow> audioContext m' = audioContext m \<Longrightarrow>
   analyser m' = analyser m \<Longrightarrow> gainNode m' = gainNode m \<Longrightarrow>
   tapped p' = tapped p \<Longrightarrow> edges p' = edges p \<Longrightarrow> wired m' p'"
  by (auto simp: wired_def split: option.splits)

lemma platform_ok_cong:
  "platform_ok p \<Longrightarrow> tapped p' = tapped p \<Longrightarrow> edges p' = edges p \<Longrightarrow> platform_ok p'"
  by (simp add: platform_ok_def)

lemma wired_full:
  "wired m p \<Longrightarrow> source m \<noteq> None \<Longrightarrow>
   audioContext m \<noteq> None \<and> analyser m \<noteq> None \<and> gainNode m \<noteq> None"
  by (auto simp: wired_def split: option.splits)

lemma inv_new_source:
  assumes ok: "platform_ok p" and cm: "createMediaElementSource audioElement p = Inr (s, p')"
    and m: "audioContext m = Some c" "analyser m = Some a" "gainNode m = Some g"
  shows "platform_ok (wire s a g c p') \<and> wired (m\<lparr>source := Some s\<rparr>) (wire s a g c p')
       \<and> wired (m\<lparr>source := Some s, dataArray := d\<rparr>) (wire s a g c p')"
proof -
  from createMediaElementSource_graph [OF cm] obtain el where
    el: "el \<notin> fst ` set (tapped p)" "tapped p' = tapped p @ [(el, s)]" "edges p' = edges p"
    by blast
  with ok have "platform_ok (wire s a g c p')"
    by (auto simp: platform_ok_def wire_graph)
  moreover have "wired (m\<lparr>source := Some s\<rparr>) (wire s a g c p')"
    "wired (m\<lparr>source := Some s, dataArray := d\<rparr>) (wire s a g c p')"
    using m el by (auto simp: wired_def wire_graph)
  ultimately show ?thesis by simp
qed


text \<open>What the guarded creations at the head of both functions leave behind.\<close>

lemma ensure_all:
  assumes c: "ensure_context m p = Inr (c, m1, p1)"
    and r: "tapped p2 = tapped p1" "edges p2 = edges p1"
    and a: "ensure_analyser m1 p2 = (a, m3, p3)"
    and g: "ensure_gain c m3 p3 = (g, m4, p4)"
  shows "tapped p4 = tapped p \<and> edges p4 = edges p \<and> source m4 = source m
    \<and> audioContext m4 = Some c \<and> analyser m4 = Some a \<and> gainNode m4 = Some g
    \<and> (source m \<noteq> None \<and> wired m p \<longrightarrow>
          audioContext m4 = audioContext m \<and> analyser m4 = analyser m \<and> gainNode m4 = gainNode m)"
proof -
  note kc = ensure_context_keeps [OF c] and ka = ensure_analyser_keeps [OF a]
    and kg = ensure_gain_keeps [OF g]
  have "audioContext m4 = audioContext m \<and> analyser m4 = analyser m \<and> gainNode m4 = gainNode m"
    if "source m \<noteq> None" "wired m p"
    using wired_full [OF that(2,1)] kc ka kg by auto
  with kc ka kg r show ?thesis by simp
qed

lemma initializeAudioContext_inv:
  assumes "graph_inv w"
  shows "graph_inv (snd (initializeAudioContext audioElement w))"
proof (cases "ensure_context (fst w) (snd w)")
  case (Inl e)
  with assms show ?thesis by (simp add: initializeAudioContext_def)
next
  case (Inr r)
  obtain c m1 p1 where r: "r = (c, m1, p1)" by (cases r) auto
  define p2 where "p2 = (if state_of p1 c = Some Suspended then resume c p1 else p1)"
  obtain a m3 p3 where a: "ensure_analyser m1 p2 = (a, m3, p3)" by (cases "ensure_analyser m1 p2") auto
  obtain g m4 p4 where g: "ensure_gain c m3 p3 = (g, m4, p4)" by (cases "ensure_gain c m3 p3") auto
  have p2: "tapped p2 = tapped p1" "edges p2 = edges p1" by (simp_all add: p2_def resume_graph)
  note all = ensure_all [OF Inr [unfolded r] p2 a g]
  from assms have ok: "platform_ok (snd w)" and w: "wired (fst w) (snd w)" by (simp_all add: graph_inv_def)
  from ok all have ok4: "platform_ok p4" by (auto intro: platform_ok_cong)
  have w4: "wired m4 p4"
  proof (cases "source (fst w)")
    case None
    with all show ?thesis by (simp add: wired_source_None)
  next
    case (Some s)
    with all w show ?thesis by (intro wired_cong [OF w]) auto
  qed
  have w4d: "wired (m4\<lparr>dataArray := d\<rparr>) p4" for d
    using w4 by (rule wired_cong) simp_all
  show ?thesis
  proof (cases "source m4 = None \<and> audioElement \<noteq> None")
    case False
    then have "snd (initializeAudioContext audioElement w) =
        (m4\<lparr>dataArray := Some (replicate (frequencyBinCount a) 0)\<rparr>, p4)"
      using Inr r a g by (auto simp: initializeAudioContext_def p2_def Let_def)
    with ok4 w4d show ?thesis by (simp add: graph_inv_def)
  next
    case True
    show ?thesis
    proof (cases "createMediaElementSource audioElement p4")
      case (Inl e)
      then have "snd (initializeAudioContext audioElement w) = (m4, p4)"
        using True Inr r a g by (auto simp: initializeAudioContext_def p2_def Let_def)
      with ok4 w4 show ?thesis by (simp add: graph_inv_def)
    next
      case (Inr sp)
      obtain s p5 where sp: "sp = (s, p5)" by (cases sp) auto
      have "snd (initializeAudioContext audioElement w) =
          (m4\<lparr>source := Some s, dataArray := Some (replicate (frequencyBinCount a) 0)\<rparr>,
           wire s a g c p5)"
        using True Inr sp \<open>ensure_context (fst w) (snd w) = Inr r\<close> r a g
        by (auto simp: initializeAudioContext_def p2_def Let_def)
      moreover from all have "audioContext m4 = Some c" "analyser m4 = Some a" "gainNode m4 = Some g"
        by simp_all
      note inv_new_source [OF ok4 Inr [unfolded sp] this]
      ultimately show ?thesis by (simp add: graph_inv_def)
    qed
  qed
qed

lemma connectAnalyzer_inv:
  assumes "graph_inv w"
  shows "graph_inv (snd (connectAnalyzer audioElement w))"
proof (cases "ensure_context (fst w) (snd w)")
  case (Inl e)
  with assms show ?thesis by (simp add: connectAnalyzer_def)
next
  case (Inr r)
  obtain c m1 p1 where r: "r = (c, m1, p1)" by (cases r) auto
  obtain a m3 p3 where a: "ensure_analyser m1 p1 = (a, m3, p3)" by (cases "ensure_analyser m1 p1") auto
  obtain g m4 p4 where g: "ensure_gain c m3 p3 = (g, m4, p4)" by (cases "ensure_gain c m3 p3") auto
  note all = ensure_all [OF Inr [unfolded r] refl refl a g]
  from assms have ok: "platform_ok (snd w)" and w: "wired (fst w) (snd w)" by (simp_all add: graph_inv_def)
  from ok all have ok4: "platform_ok p4" by (auto intro: platform_ok_cong)
  have w4: "wired m4 p4"
  proof (cases "source (fst w)")
    case None
    with all show ?thesis by (simp add: wired_source_None)
  next
    case (Some s)
    with all w show ?thesis by (intro wired_cong [OF w]) auto
  qed
  show ?thesis
  proof (cases "createMediaElementSource audioElement p4")
    case (Inl e)
    then have "snd (connectAnalyzer audioElement w) = (m4, p4)"
      using Inr r a g by (auto simp: connectAnalyzer_def Let_def)
    with ok4 w4 show ?thesis by (simp add: graph_inv_def)
  next
    case (Inr sp)
    obtain s p5 where sp: "sp = (s, p5)" by (cases sp) auto
    have "snd (connectAnalyzer audioElement w) = (m4\<lparr>source := Some s\<rparr>, wire s a g c p5)"
      using Inr sp \<open>ensure_context (fst w) (snd w) = Inr r\<close> r a g
      by (auto simp: connectAnalyzer_def Let_def)
    moreover from all have "audioContext m4 = Some c" "analyser m4 = Some a" "gainNode m4 = Some g"
      by simp_all
    note inv_new_source [OF ok4 Inr [unfolded sp] this]
    ultimately show ?thesis by (simp add: graph_inv_def)
  qed
qed

lemma cleanupAudioContext_inv:
  assumes "graph_inv w"
  shows "graph_inv (cleanupAudioContext w)"
proof -
  have "tapped (snd (cleanupAudioContext w)) = tapped (snd w)"
    by (cases w) (auto simp: cleanupAudioContext_def Let_def disconnect_graph close_graph
        split: option.splits prod.splits)
  moreover have "distinct (edges (snd w)) \<Longrightarrow> distinct (edges (snd (cleanupAudioContext w)))"
    by (cases w) (auto simp: cleanupAudioContext_def Let_def disconnect_graph close_graph
        split: option.splits prod.splits)
  moreover have "source (fst (cleanupAudioContext w)) = None"
    by (simp add: cleanupAudioContext_def Let_def split: option.splits prod.splits)
  ultimately show ?thesis using assms by (simp add: graph_inv_def platform_ok_def wired_source_None)
qed

lemma setVolume_inv: "graph_inv w \<Longrightarrow> graph_inv (setVolume v w)"
  by (cases w)
     (auto simp: setVolume_def setValueAtTime_def graph_inv_def platform_ok_def wired_def Let_def
       split: option.splits sum.splits number.splits)

lemma sampling_inv:
  "graph_inv (m, p) \<Longrightarrow> graph_inv (snd (getFrequencyData m p), p)"
  "graph_inv (m, p) \<Longrightarrow> graph_inv (snd (getTimeDomainData m p), p)"
  by (auto simp: getFrequencyData_def getTimeDomainData_def graph_inv_def wired_def Let_def
      split: option.splits)

lemma foreign_tap_inv:
  assumes "graph_inv (m, p)" "createMediaElementSource (Some el) p = Inr (s, p')"
  shows "graph_inv (m, p')"
proof -
  from createMediaElementSource_graph [OF assms(2)] assms(1) show ?thesis
    by (auto simp: graph_inv_def platform_ok_def wired_def split: option.splits)
qed

lemma foreign_connect_inv: "graph_inv (m, p) \<Longrightarrow> graph_inv (m, connect a b p)"
  by (auto simp: graph_inv_def platform_ok_def wired_def connect_graph split: option.splits)

lemma foreign_disconnect_inv:
  assumes "graph_inv (m, p)" "source m \<noteq> Some a" "gainNode m \<noteq> Some a"
    "\<forall>n. analyser m = Some n \<longrightarrow> node_id n \<noteq> a"
  shows "graph_inv (m, disconnect a p)"
  using assms
  by (auto simp: graph_inv_def platform_ok_def wired_def disconnect_def split: option.splits)

lemma render_quantum_inv: "graph_inv (m, p) \<Longrightarrow> graph_inv (m, render_quantum c p)"
  by (auto simp: graph_inv_def platform_ok_def wired_def render_quantum_def split: option.splits)

lemma reachable_inv: "reachable w \<Longrightarrow> graph_inv w"
proof (induction rule: reachable.induct)
  case (start p)
  then show ?case by (simp add: graph_inv_def wired_def initial_utils_def)
qed (simp_all add: initializeAudioContext_inv connectAnalyzer_inv cleanupAudioContext_inv
     setVolume_inv sampling_inv foreign_tap_inv foreign_connect_inv foreign_disconnect_inv
     render_quantum_inv)


lemma bound_ensure:
  assumes "bound el s (m, p)"
  shows "\<exists>c a g. ensure_context m p = Inr (c, m, p)
     \<and> (\<forall>q. ensure_analyser m q = (a, m, q))
     \<and> (\<forall>q. ensure_gain c m q = (g, m, q))"
proof -
  from assms have "wired m p" "source m \<noteq> None" by (simp_all add: bound_def graph_inv_def)
  from wired_full [OF this] show ?thesis
    by (auto simp: ensure_context_def ensure_analyser_def ensure_gain_def)
qed

lemma connectAnalyzer_bound:
  assumes "bound el s w"
  shows "connectAnalyzer (Some el) w = (Inl InvalidStateError, w)"
proof (cases w)
  case (Pair m p)
  from bound_ensure [OF assms [unfolded Pair]] obtain c a g where
    e: "ensure_context m p = Inr (c, m, p)"
    "\<And>q. ensure_analyser m q = (a, m, q)" "\<And>q. ensure_gain c m q = (g, m, q)"
    by blast
  from assms Pair have "el \<in> fst ` set (tapped p)" by (force simp: bound_def)
  then show ?thesis using e Pair
    by (simp add: connectAnalyzer_def createMediaElementSource_tapped)
qed

lemma initializeAudioContext_bound:
  assumes "bound el s w"
  shows "\<exists>c a g p'. initializeAudioContext (Some el) w =
      (Initialized c a (replicate (frequencyBinCount a) 0) g,
       (fst w)\<lparr>dataArray := Some (replicate (frequencyBinCount a) 0)\<rparr>, p')
     \<and> tapped p' = tapped (snd w) \<and> edges p' = edges (snd w)"
proof (cases w)
  case (Pair m p)
  from bound_ensure [OF assms [unfolded Pair]] obtain c a g where
    e: "ensure_context m p = Inr (c, m, p)"
    "\<And>q. ensure_analyser m q = (a, m, q)" "\<And>q. ensure_gain c m q = (g, m, q)"
    by blast
  from assms Pair have "source m = Some s" by (simp add: bound_def)
  then show ?thesis using e Pair
    by (simp add: initializeAudioContext_def Let_def resume_graph)
qed

lemma bound_step:
  assumes "bound el s w"
  shows "bound el s (snd (initializeAudioContext (Some el) w))
       \<and> tapped (snd (snd (initializeAudioContext (Some el) w))) = tapped (snd w)
       \<and> edges (snd (snd (initializeAudioContext (Some el) w))) = edges (snd w)"
    and "bound el s (snd (connectAnalyzer (Some el) w))
       \<and> tapped (snd (snd (connectAnalyzer (Some el) w))) = tapped (snd w)
       \<and> edges (snd (snd (connectAnalyzer (Some el) w))) = edges (snd w)"
proof -
  from assms have i: "graph_inv w" by (simp add: bound_def)
  from initializeAudioContext_bound [OF assms] initializeAudioContext_inv [OF i, of "Some el"] assms
  show "bound el s (snd (initializeAudioContext (Some el) w))
       \<and> tapped (snd (snd (initializeAudioContext (Some el) w))) = tapped (snd w)
       \<and> edges (snd (snd (initializeAudioContext (Some el) w))) = edges (snd w)"
    by (auto simp: bound_def)
  from assms show "bound el s (snd (connectAnalyzer (Some el) w))
       \<and> tapped (snd (snd (connectAnalyzer (Some el) w))) = tapped (snd w)
       \<and> edges (snd (snd (connectAnalyzer (Some el) w))) = edges (snd w)"
    by (simp add: connectAnalyzer_bound)
qed

lemma bound_rebind:
  "bound el s w \<Longrightarrow>
   bound el s (rebind ops el w) \<and> tapped (snd (rebind ops el w)) = tapped (snd w)
   \<and> edges (snd (rebind ops el w)) = edges (snd w)"
proof (induction ops arbitrary: w)
  case Nil
  then show ?case by simp
next
  case (Cons b bs)
  show ?case
  proof (cases b)
    case True
    from bound_step(1) [OF Cons.prems] Cons.IH [of "snd (initializeAudioContext (Some el) w)"] True
    show ?thesis by simp
  next
    case False
    from bound_step(2) [OF Cons.prems] Cons.IH [of "snd (connectAnalyzer (Some el) w)"] False
    show ?thesis by simp
  qed
qed

lemma bound_one_path:
  assumes "bound el s w"
  shows "taps_of (snd w) el = [s] \<and> signal_paths (fst w) (snd w) el = 1"
  using assms taps_of_bound [of "snd w" el s] signal_paths_bound [of "snd w" "fst w" s el]
  by (simp add: bound_def graph_inv_def)

text \<open>C1: in every state the module can reach, whatever other components do on the
  platform, an audio element has at most one source node and at most one signal path
  through the module's analyser and gain node to the destination. Once the module has
  bound an element, \<^verbatim>\<open>initializeAudioContext\<close> and \<^verbatim>\<open>connectAnalyzer\<close> called with that
  element again, any number of times in any order, leave the source, the taps and the
  connections as they are, so exactly one tap and exactly one signal path:
  \<^verbatim>\<open>initializeAudioContext\<close> skips the wiring, and \<^verbatim>\<open>connectAnalyzer\<close> ends with the
  InvalidStateError of the platform before it connects anything.\<close>

theorem one_tap_per_element:
  assumes "reachable (m, p)"
  shows "length (taps_of p el) \<le> 1
     \<and> signal_paths m p el \<le> 1
     \<and> (source m = Some s \<and> (el, s) \<in> set (tapped p) \<longrightarrow>
          signal_paths m p el = 1
        \<and> connectAnalyzer (Some el) (m, p) = (Inl InvalidStateError, m, p)
        \<and> source (fst (snd (initializeAudioContext (Some el) (m, p)))) = Some s
        \<and> source (fst (rebind ops el (m, p))) = Some s
        \<and> tapped (snd (rebind ops el (m, p))) = tapped p
        \<and> edges (snd (rebind ops el (m, p))) = edges p
        \<and> taps_of (snd (rebind ops el (m, p))) el = [s]
        \<and> signal_paths (fst (rebind ops el (m, p))) (snd (rebind ops el (m, p))) el = 1)"
proof -
  from reachable_inv [OF assms] have i: "graph_inv (m, p)" .
  then have ok: "platform_ok p" by (simp add: graph_inv_def)
  have main: "signal_paths m p el = 1
        \<and> connectAnalyzer (Some el) (m, p) = (Inl InvalidStateError, m, p)
        \<and> source (fst (snd (initializeAudioContext (Some el) (m, p)))) = Some s
        \<and> source (fst (rebind ops el (m, p))) = Some s
        \<and> tapped (snd (rebind ops el (m, p))) = tapped p
        \<and> edges (snd (rebind ops el (m, p))) = edges p
        \<and> taps_of (snd (rebind ops el (m, p))) el = [s]
        \<and> signal_paths (fst (rebind ops el (m, p))) (snd (rebind ops el (m, p))) el = 1"
    if "source m = Some s" "(el, s) \<in> set (tapped p)"
  proof -
    from i that have b: "bound el s (m, p)" by (simp add: bound_def)
    from bound_rebind [OF b, of ops] have r: "bound el s (rebind ops el (m, p))"
      "tapped (snd (rebind ops el (m, p))) = tapped p" "edges (snd (rebind ops el (m, p))) = edges p"
      by simp_all
    from r(1) have sr: "source (fst (rebind ops el (m, p))) = Some s" by (simp add: bound_def)
    from bound_step(1) [OF b]
    have si: "source (fst (snd (initializeAudioContext (Some el) (m, p)))) = Some s"
      by (simp add: bound_def)
    from bound_one_path [OF b] connectAnalyzer_bound [OF b] bound_one_path [OF r(1)] r(2,3) sr si
    show ?thesis by simp
  qed
  from taps_of_le1 [OF ok] signal_paths_le1 [OF ok] main show ?thesis by blast
qed

lemmas platform_ops =
  ensure_context_def ensure_analyser_def ensure_gain_def new_AudioContext_def resume_def
  createAnalyser_def createGain_def createMediaElementSource_def wire_def connect_def
  destination_def state_of_def frequencyBinCount_def

lemma demo_reached:
  "initializeAudioContext (Some 7) (initial_utils, fresh_platform) =
     (Initialized 0 demo_analyser (replicate 128 0) 3, demo_utils, demo_platform)"
  by (simp add: initializeAudioContext_def platform_ops initial_utils_def fresh_platform_def
      demo_platform_def demo_utils_def demo_analyser_def Let_def)

lemma demo_reachable: "reachable (demo_utils, demo_platform)"
proof -
  have "platform_ok fresh_platform" by (simp add: platform_ok_def fresh_platform_def)
  then have "reachable (initial_utils, fresh_platform)" by (rule reachable.start)
  from reachable.initialize [OF this, of "Some 7"] show ?thesis by (simp add: demo_reached)
qed


theorem one_tap_per_element_witness:
  "reachable (demo_utils, demo_platform)
 \<and> source demo_utils = Some 4 \<and> (7, 4) \<in> set (tapped demo_platform)
 \<and> signal_paths demo_utils demo_platform 7 = 1
 \<and> connectAnalyzer (Some 7) (demo_utils, demo_platform) = (Inl InvalidStateError, demo_utils, demo_platform)
 \<and> taps_of (snd (rebind [True, False, True] 7 (demo_utils, demo_platform))) 7 = [4]
 \<and> edges (snd (rebind [True, False, True] 7 (demo_utils, demo_platform))) = [(4, 2), (2, 3), (3, 1)]
 \<and> signal_paths (fst (rebind [True, False, True] 7 (demo_utils, demo_platform)))
      (snd (rebind [True, False, True] 7 (demo_utils, demo_platform))) 7 = 1"
proof -
  have s: "source demo_utils = Some 4" "(7, 4) \<in> set (tapped demo_platform)"
    "edges demo_platform = [(4, 2), (2, 3), (3, 1)]"
    by (simp_all add: demo_utils_def demo_platform_def)
  from one_tap_per_element [OF demo_reachable, of 7 4 "[True, False, True]"] s demo_reachable
  show ?thesis by simp
qed

section \<open>What the renderer draws\<close>

lemma bars_loop_concat:
  "bars_loop d i n bw h col sens = concat (map (\<lambda>k. draw_bar d k bw h col sens) [i..<n])"
proof (induction d i n bw h col sens rule: bars_loop.induct)
  case (1 d i n bw h col sens)
  show ?case
  proof (cases "i < n")
    case True
    with 1 show ?thesis
      by (simp add: bars_loop.simps [of d i n] upt_conv_Cons)
  next
    case False
    then show ?thesis by (simp add: bars_loop.simps [of d i n])
  qed
qed

lemma bar_rects_append: "bar_rects (xs @ ys) = bar_rects xs @ bar_rects ys"
  by (induction xs rule: bar_rects.induct) simp_all

lemma bar_rects_concat: "bar_rects (concat xss) = concat (map bar_rects xss)"
  by (induction xss) (simp_all add: bar_rects_append)

lemma bar_rects_draw_bar:
  "bar_rects (draw_bar d k bw h col sens) =
     [(real k * bw + 1, h - sample d k / 255 * h * sens, bw - 2, sample d k / 255 * h * sens)]"
  by (simp add: draw_bar_def Let_def)

lemma bar_rects_drawBars:
  "bar_rects (drawBars col sens canvas d) =
     map (\<lambda>i. (real i * (real (width canvas) / real (length d)) + 1,
                real (height canvas) - sample d i / 255 * real (height canvas) * sens,
                real (width canvas) / real (length d) - 2,
                sample d i / 255 * real (height canvas) * sens))
         [0..<length d]"
  by (simp add: drawBars_def Let_def bar_rects_append bars_loop_concat bar_rects_concat
      bar_rects_draw_bar comp_def concat_map_singleton)

lemma waveform_loop_map:
  "waveform_loop d i x sw cy h sens =
     map (\<lambda>k. (if k = 0 then MoveTo else LineTo) (x + real (k - i) * sw)
                 (cy + (sample d k / 255 * sens) * h / 2 - h / 4))
         [i..<length d]"
proof (induction d i x sw cy h sens rule: waveform_loop.induct)
  case (1 d i x sw cy h sens)
  show ?case
  proof (cases "i < length d")
    case True
    have step: "waveform_loop d i x sw cy h sens =
        (if i = 0 then MoveTo else LineTo) x (cy + (sample d i / 255 * sens) * h / 2 - h / 4)
        # waveform_loop d (i + 1) (x + sw) sw cy h sens"
      using True by (simp add: waveform_loop.simps [of d i x] Let_def)
    have IH: "waveform_loop d (i + 1) (x + sw) sw cy h sens =
        map (\<lambda>k. (if k = 0 then MoveTo else LineTo) (x + sw + real (k - (i + 1)) * sw)
                 (cy + (sample d k / 255 * sens) * h / 2 - h / 4)) [i + 1..<length d]"
      using "1.IH" [OF True refl refl] .
    have eq: "map (\<lambda>k. (if k = 0 then MoveTo else LineTo) (x + sw + real (k - (i + 1)) * sw)
                 (cy + (sample d k / 255 * sens) * h / 2 - h / 4)) [i + 1..<length d]
        = map (\<lambda>k. (if k = 0 then MoveTo else LineTo) (x + real (k - i) * sw)
                 (cy + (sample d k / 255 * sens) * h / 2 - h / 4)) [i + 1..<length d]"
      by (rule map_cong) (auto simp: algebra_simps of_nat_diff)
    show ?thesis unfolding step IH eq by (simp add: upt_conv_Cons [OF True])
  next
    case False
    then show ?thesis by (simp add: waveform_loop.simps [of d i x])
  qed
qed


lemma drawBars_calls:
  "drawBars col sens canvas d =
     [ClearRect 0 0 (real (width canvas)) (real (height canvas)),
      CreateLinearGradient 0 (real (height canvas)) 0 0,
      AddColorStop 0 (col @ ''40''), AddColorStop (1 / 2) (col @ ''80''), AddColorStop 1 col,
      FillStyleGradient]
     @ concat (map (\<lambda>i. [BeginPath,
                           RoundRect (real i * (real (width canvas) / real (length d)) + 1)
                             (real (height canvas) - sample d i / 255 * real (height canvas) * sens)
                             (real (width canvas) / real (length d) - 2)
                             (sample d i / 255 * real (height canvas) * sens)
                             [2, 2, 0, 0],
                           Fill, ShadowColor col, ShadowBlur 10, Fill, ShadowBlur 0])
                 [0..<length d])"
  by (simp add: drawBars_def Let_def bars_loop_concat draw_bar_def)

lemma sample_all:
  "\<forall>b\<in>set d. b = c \<Longrightarrow> i < length d \<Longrightarrow> sample d i = real (unat c)"
  using nth_mem [of i d] by (auto simp: sample_def)

text \<open>C7: \<^verbatim>\<open>drawBars\<close> clears the whole surface first, sets the vertical gradient as fill
  style, and then, for a snapshot of n bins, draws n bars, each by the same calls: begin a
  path, add the rounded rectangle of the bar, fill it, and fill it once more with the glow
  on. Bar i stands in the i-th of n slots of width surfaceWidth / n, which together make
  up the surface width: its rectangle starts one pixel inside the slot, at
  i * surfaceWidth / n + 1, is two pixels narrower than the slot, and reaches from the
  bottom of the surface up by its height (sample / 255) * surfaceHeight * sensitivity.
  A snapshot of zeros gives n bars of height 0 on the bottom edge, whatever the
  sensitivity; a snapshot of 255s at sensitivity 1 gives n bars of the full surface
  height, from the top edge down. The function is defined on every snapshot, the empty
  one included.\<close>

theorem drawBars_partitions_width_and_scales_height:
  "drawBars col sens canvas d =
     [ClearRect 0 0 (real (width canvas)) (real (height canvas)),
      CreateLinearGradient 0 (real (height canvas)) 0 0,
      AddColorStop 0 (col @ ''40''), AddColorStop (1 / 2) (col @ ''80''), AddColorStop 1 col,
      FillStyleGradient]
     @ concat (map (\<lambda>i. [BeginPath,
                           RoundRect (real i * (real (width canvas) / real (length d)) + 1)
                             (real (height canvas) - sample d i / 255 * real (height canvas) * sens)
                             (real (width canvas) / real (length d) - 2)
                             (sample d i / 255 * real (height canvas) * sens)
                             [2, 2, 0, 0],
                           Fill, ShadowColor col, ShadowBlur 10, Fill, ShadowBlur 0])
                 [0..<length d])
 \<and> bar_rects (drawBars col sens canvas d) =
     map (\<lambda>i. (real i * (real (width canvas) / real (length d)) + 1,
                real (height canvas) - sample d i / 255 * real (height canvas) * sens,
                real (width canvas) / real (length d) - 2,
                sample d i / 255 * real (height canvas) * sens))
         [0..<length d]
 \<and> (0 < length d \<longrightarrow> real (length d) * (real (width canvas) / real (length d)) = real (width canvas))
 \<and> ((\<forall>b\<in>set d. b = 0) \<longrightarrow>
      bar_rects (drawBars col sens canvas d) =
        map (\<lambda>i. (real i * (real (width canvas) / real (length d)) + 1, real (height canvas),
                   real (width canvas) / real (length d) - 2, 0))
            [0..<length d])
 \<and> ((\<forall>b\<in>set d. b = 255) \<longrightarrow>
      bar_rects (drawBars col 1 canvas d) =
        map (\<lambda>i. (real i * (real (width canvas) / real (length d)) + 1, 0,
                   real (width canvas) / real (length d) - 2, real (height canvas)))
            [0..<length d])"
proof -
  have zeros: "bar_rects (drawBars col sens canvas d) =
        map (\<lambda>i. (real i * (real (width canvas) / real (length d)) + 1, real (height canvas),
                   real (width canvas) / real (length d) - 2, 0))
            [0..<length d]" if "\<forall>b\<in>set d. b = 0"
    unfolding bar_rects_drawBars using sample_all [OF that] by (intro map_cong) simp_all
  have full: "bar_rects (drawBars col 1 canvas d) =
        map (\<lambda>i. (real i * (real (width canvas) / real (length d)) + 1, 0,
                   real (width canvas) / real (length d) - 2, real (height canvas)))
            [0..<length d]" if "\<forall>b\<in>set d. b = 255"
    unfolding bar_rects_drawBars using sample_all [OF that] by (intro map_cong) simp_all
  have tile: "real (length d) * (real (width canvas) / real (length d)) = real (width canvas)"
    if "0 < length d" using that by simp
  from drawBars_calls [of col sens canvas d] bar_rects_drawBars [of col sens canvas d]
    zeros full tile
  show ?thesis by blast
qed

theorem drawBars_partitions_width_and_scales_height_witness:
  "0 < length [0, 255, 51, 102 :: byte]
 \<and> drawBars ''#3b82f6'' 1 demo_canvas [51, 255] =
      [ClearRect 0 0 512 200, CreateLinearGradient 0 200 0 0,
       AddColorStop 0 ''#3b82f640'', AddColorStop (1 / 2) ''#3b82f680'', AddColorStop 1 ''#3b82f6'',
       FillStyleGradient,
       BeginPath, RoundRect 1 160 254 40 [2, 2, 0, 0], Fill,
       ShadowColor ''#3b82f6'', ShadowBlur 10, Fill, ShadowBlur 0,
       BeginPath, RoundRect 257 0 254 200 [2, 2, 0, 0], Fill,
       ShadowColor ''#3b82f6'', ShadowBlur 10, Fill, ShadowBlur 0]
 \<and> bar_rects (drawBars ''#3b82f6'' 1 demo_canvas [0, 255, 51, 102]) =
      [(1, 200, 126, 0), (129, 0, 126, 200), (257, 160, 126, 40), (385, 120, 126, 80)]
 \<and> bar_rects (drawBars ''#3b82f6'' (3 / 2) demo_canvas [0, 0, 0, 0]) =
      [(1, 200, 126, 0), (129, 200, 126, 0), (257, 200, 126, 0), (385, 200, 126, 0)]
 \<and> bar_rects (drawBars ''#3b82f6'' 1 demo_canvas [255, 255, 255, 255]) =
      [(1, 0, 126, 200), (129, 0, 126, 200), (257, 0, 126, 200), (385, 0, 126, 200)]"
  using drawBars_partitions_width_and_scales_height [of "''#3b82f6''" 1 demo_canvas "[0, 255, 51, 102]"]
    drawBars_partitions_width_and_scales_height [of "''#3b82f6''" 1 demo_canvas "[51, 255]"]
    drawBars_partitions_width_and_scales_height [of "''#3b82f6''" "3 / 2" demo_canvas "[0, 0, 0, 0]"]
    drawBars_partitions_width_and_scales_height [of "''#3b82f6''" 1 demo_canvas "[255, 255, 255, 255]"]
  by (simp add: demo_canvas_def sample_def upt_conv_Cons)

lemma vertices_append: "vertices (xs @ ys) = vertices xs @ vertices ys"
  by (induction xs rule: vertices.induct) simp_all

lemma vertices_polyline:
  "vertices (map (\<lambda>k. (if k = 0 then MoveTo else LineTo) (f k) (g k)) ks) =
     map (\<lambda>k. (k = 0, f k, g k)) ks"
  by (induction ks) simp_all

lemma drawWaveform_calls:
  "drawWaveform col sens canvas d =
     [ClearRect 0 0 (real (width canvas)) (real (height canvas)),
      CreateLinearGradient 0 0 (real (width canvas)) 0,
      AddColorStop 0 (col @ ''60''), AddColorStop (1 / 2) col, AddColorStop 1 (col @ ''60''),
      StrokeStyleGradient, LineWidth 3, LineCap ''round'', LineJoin ''round'', BeginPath]
     @ map (\<lambda>i. (if i = 0 then MoveTo else LineTo)
                   (real i * (real (width canvas) / real (length d)))
                   (real (height canvas) / 2
                    + (sample d i / 255 * sens) * real (height canvas) / 2
                    - real (height canvas) / 4))
           [0..<length d]
     @ [Stroke, ShadowColor col, ShadowBlur 10, Stroke, ShadowBlur 0]"
  by (simp add: drawWaveform_def Let_def waveform_loop_map)

text \<open>C9: \<^verbatim>\<open>drawWaveform\<close> clears the surface, begins one path, and gives it one vertex
  per bin: a \<^verbatim>\<open>moveTo\<close> for bin 0 and a \<^verbatim>\<open>lineTo\<close> for every later bin, so one
  connected polyline, which it then strokes. Vertex i is at the left edge of the i-th of
  n slices of width surfaceWidth / n, which together make up the surface width, and at
  the height surfaceHeight / 2 + v * surfaceHeight / 2 - surfaceHeight / 4 with
  v = (sample / 255) * sensitivity.\<close>

theorem drawWaveform_one_polyline:
  "drawWaveform col sens canvas d =
     [ClearRect 0 0 (real (width canvas)) (real (height canvas)),
      CreateLinearGradient 0 0 (real (width canvas)) 0,
      AddColorStop 0 (col @ ''60''), AddColorStop (1 / 2) col, AddColorStop 1 (col @ ''60''),
      StrokeStyleGradient, LineWidth 3, LineCap ''round'', LineJoin ''round'', BeginPath]
     @ map (\<lambda>i. (if i = 0 then MoveTo else LineTo)
                   (real i * (real (width canvas) / real (length d)))
                   (real (height canvas) / 2
                    + (sample d i / 255 * sens) * real (height canvas) / 2
                    - real (height canvas) / 4))
           [0..<length d]
     @ [Stroke, ShadowColor col, ShadowBlur 10, Stroke, ShadowBlur 0]
 \<and> vertices (drawWaveform col sens canvas d) =
     map (\<lambda>i. (i = 0, real i * (real (width canvas) / real (length d)),
                real (height canvas) / 2
                + (sample d i / 255 * sens) * real (height canvas) / 2
                - real (height canvas) / 4))
         [0..<length d]
 \<and> length (vertices (drawWaveform col sens canvas d)) = length d
 \<and> (0 < length d \<longrightarrow> real (length d) * (real (width canvas) / real (length d)) = real (width canvas))"
proof -
  have v: "vertices (drawWaveform col sens canvas d) =
     map (\<lambda>i. (i = 0, real i * (real (width canvas) / real (length d)),
                real (height canvas) / 2
                + (sample d i / 255 * sens) * real (height canvas) / 2
                - real (height canvas) / 4))
         [0..<length d]"
    unfolding drawWaveform_calls by (simp add: vertices_append vertices_polyline)
  have tile: "real (length d) * (real (width canvas) / real (length d)) = real (width canvas)"
    if "0 < length d" using that by simp
  from drawWaveform_calls [of col sens canvas d] v tile show ?thesis by simp
qed

theorem drawWaveform_one_polyline_witness:
  "0 < length [0, 255, 51, 102 :: byte]
 \<and> vertices (drawWaveform ''#3b82f6'' 1 demo_canvas [0, 255, 51, 102]) =
      [(True, 0, 50), (False, 128, 150), (False, 256, 70), (False, 384, 90)]
 \<and> real (length [0, 255, 51, 102 :: byte]) * (real (width demo_canvas) / real (length [0, 255, 51, 102 :: byte]))
      = 512"
  using drawWaveform_one_polyline [of "''#3b82f6''" 1 demo_canvas "[0, 255, 51, 102]"]
  by (simp add: demo_canvas_def sample_def upt_conv_Cons)

section \<open>Ticks of the animation driver\<close>

lemmas driver_defs =
  render_def restyle_def retarget_def initialize_effect_def animation_cleanup_def
  animation_effect_def has_handle_def cancelAnimationFrame_def requestAnimationFrame_def
  visualizer_initialize_def visualizer_resume_def

lemma animate_ready:
  assumes "analyserRef v = Some a" "dataArrayRef v = Some d0" "canvasRef v = Some cv"
  shows "animate pr p v =
     (let d = getByteFrequencyData p d0;
          v2 = v\<lparr>dataArrayRef := Some d,
                 trace := trace v @ [Sampled d, Rendered (draw_frame pr cv d)]\<rparr>
      in if isPlaying pr then requestAnimationFrame pr v2 else v2)"
  using assms by (simp add: animate_def Let_def)

lemma animate_not_ready: "\<not> ready v \<Longrightarrow> animate pr p v = v"
  by (auto simp add: animate_def ready_def)

lemma cleanup_cancels: "driver_inv v \<Longrightarrow> animation_cleanup v = v\<lparr>frames := []\<rparr>"
  by (auto simp add: driver_inv_def animation_cleanup_def has_handle_def cancelAnimationFrame_def
      split: option.splits)

lemma initialize_keeps:
  assumes "visualizer_initialize audioRef i p v = (v', p')"
  shows "frames v' = frames v \<and> rendered v' = rendered v \<and> animationRef v' = animationRef v
     \<and> canvasRef v' = canvasRef v \<and> next_frame v' = next_frame v \<and> trace v' = trace v
     \<and> (analyserRef v \<noteq> None \<longrightarrow> analyserRef v' \<noteq> None)
     \<and> (dataArrayRef v \<noteq> None \<longrightarrow> dataArrayRef v' \<noteq> None)
     \<and> (isInitialized v' \<longrightarrow> isInitialized v \<or> analyserRef v' \<noteq> None \<and> dataArrayRef v' \<noteq> None)
     \<and> (isInitialized v \<longrightarrow> isInitialized v')
     \<and> (i \<longrightarrow> v' = v)"
  using assms
  by (auto simp add: visualizer_initialize_def Let_def split: if_splits sum.splits prod.splits)


lemma resume_freq: "getByteFrequencyData (visualizer_resume p v) d = getByteFrequencyData p d"
  by (simp add: visualizer_resume_def resume_def getByteFrequencyData_def split: option.splits)

lemma inv_mounted: "driver_inv (mounted pr cv n)"
  by (simp add: driver_inv_def mounted_def)

lemma animate_idle:
  assumes "frames v = []" "analyserRef v = Some a" "dataArrayRef v = Some d0" "canvasRef v = Some cv"
  shows "animate pr p v =
     (if isPlaying pr
      then v\<lparr>dataArrayRef := Some (getByteFrequencyData p d0),
             trace := trace v @ [Sampled (getByteFrequencyData p d0),
                                 Rendered (draw_frame pr cv (getByteFrequencyData p d0))],
             animationRef := Some (Suc (next_frame v)),
             frames := [(Suc (next_frame v), pr)],
             next_frame := Suc (next_frame v)\<rparr>
      else v\<lparr>dataArrayRef := Some (getByteFrequencyData p d0),
             trace := trace v @ [Sampled (getByteFrequencyData p d0),
                                 Rendered (draw_frame pr cv (getByteFrequencyData p d0))]\<rparr>)"
  using assms by (simp add: animate_ready [OF assms(2-4)] Let_def requestAnimationFrame_def)

lemma inv_animate:
  assumes "frames v = []" "rendered v = pr"
    "isInitialized v \<longrightarrow> analyserRef v \<noteq> None \<and> dataArrayRef v \<noteq> None"
  shows "driver_inv (animate pr p v)"
proof (cases "ready v")
  case False
  then show ?thesis using assms by (simp add: animate_not_ready driver_inv_def)
next
  case True
  then obtain a d0 cv where r: "analyserRef v = Some a" "dataArrayRef v = Some d0" "canvasRef v = Some cv"
    by (auto simp add: ready_def)
  show ?thesis
    using assms r by (simp add: animate_idle [OF assms(1) r] driver_inv_def ready_def)
qed

lemma fire_frame_pending:
  assumes "driver_inv v" "frames v \<noteq> []" "dataArrayRef v = Some d0" "canvasRef v = Some cv"
  shows "fire_frame q v =
     v\<lparr>dataArrayRef := Some (getByteFrequencyData q d0),
       trace := trace v @ [Sampled (getByteFrequencyData q d0),
                           Rendered (draw_frame (rendered v) cv (getByteFrequencyData q d0))],
       animationRef := Some (Suc (next_frame v)),
       frames := [(Suc (next_frame v), rendered v)],
       next_frame := Suc (next_frame v)\<rparr>"
proof -
  from assms(1,2) obtain h a where h: "frames v = [(h, rendered v)]" "isPlaying (rendered v)"
    "analyserRef v = Some a"
    by (auto simp add: driver_inv_def ready_def)
  have "animate (rendered v) q (v\<lparr>frames := []\<rparr>) =
      v\<lparr>frames := [], dataArrayRef := Some (getByteFrequencyData q d0),
       trace := trace v @ [Sampled (getByteFrequencyData q d0),
                           Rendered (draw_frame (rendered v) cv (getByteFrequencyData q d0))],
       animationRef := Some (Suc (next_frame v)),
       frames := [(Suc (next_frame v), rendered v)],
       next_frame := Suc (next_frame v)\<rparr>"
    using h assms(3,4) by (simp add: animate_idle [of _ a d0 cv])
  then show ?thesis using h by (simp add: fire_frame_def)
qed

lemma fire_frame_idle: "frames v = [] \<Longrightarrow> fire_frame q v = v"
  by (simp add: fire_frame_def)

lemma inv_fire: 
  assumes "driver_inv v"
  shows "driver_inv (fire_frame q v)"
proof (cases "frames v = []")
  case True
  then show ?thesis using assms by (simp add: fire_frame_idle)
next
  case False
  with assms obtain d0 cv where r: "dataArrayRef v = Some d0" "canvasRef v = Some cv"
    by (auto simp add: driver_inv_def ready_def)
  from assms False show ?thesis
    unfolding fire_frame_pending [OF assms False r]
    by (auto simp add: driver_inv_def ready_def)
qed

lemma effect_idle:
  assumes "frames v = []"
  shows "animation_effect pr i p v = (if isPlaying pr \<and> i then animate pr p v else v)"
  using assms by (simp add: animation_effect_def cancelAnimationFrame_def)

lemma inv_initialize_effect:
  assumes "driver_inv (fst w)"
  shows "driver_inv (fst (initialize_effect pr audioRef i w))"
proof (cases "isPlaying pr \<and> audioRef \<noteq> None")
  case False
  then show ?thesis using assms by (auto simp add: initialize_effect_def)
next
  case True
  obtain v' p' where vi: "visualizer_initialize audioRef i (snd w) (fst w) = (v', p')"
    by (cases "visualizer_initialize audioRef i (snd w) (fst w)") 
  from True have "fst (initialize_effect pr audioRef i w) = v'"
    by (simp add: initialize_effect_def vi)
  moreover have "driver_inv v'"
    using assms initialize_keeps [OF vi] by (auto simp add: driver_inv_def ready_def)
  ultimately show ?thesis by simp
qed

lemma initialize_effect_keeps:
  "frames (fst (initialize_effect pr audioRef i w)) = frames (fst w)
 \<and> rendered (fst (initialize_effect pr audioRef i w)) = rendered (fst w)
 \<and> trace (fst (initialize_effect pr audioRef i w)) = trace (fst w)
 \<and> (i \<longrightarrow> fst (initialize_effect pr audioRef i w) = fst w)
 \<and> (\<not> isPlaying pr \<longrightarrow> initialize_effect pr audioRef i w = w)
 \<and> getByteFrequencyData (snd (initialize_effect pr audioRef i w)) d = getByteFrequencyData (snd w) d"
proof (cases "isPlaying pr \<and> audioRef \<noteq> None")
  case False
  then show ?thesis by (auto simp add: initialize_effect_def)
next
  case True
  obtain v' p' where vi: "visualizer_initialize audioRef i (snd w) (fst w) = (v', p')"
    by (cases "visualizer_initialize audioRef i (snd w) (fst w)") 
  from True have e: "initialize_effect pr audioRef i w = (v', visualizer_resume p' v')"
    by (simp add: initialize_effect_def vi)
  have "freq_bytes p' = freq_bytes (snd w)"
    using vi
    by (auto simp add: visualizer_initialize_def Let_def new_AudioContext_def createAnalyser_def
      createMediaElementSource_def connect_def split: if_splits sum.splits prod.splits)
  then have "getByteFrequencyData p' d = getByteFrequencyData (snd w) d"
    by (simp add: getByteFrequencyData_def)
  with True initialize_keeps [OF vi] show ?thesis
    unfolding e by (auto simp add: resume_freq)
qed


lemma inv_cleared:
  "driver_inv v \<Longrightarrow> driver_inv (v\<lparr>frames := [], rendered := pr\<rparr>)"
  by (simp add: driver_inv_def)

lemma inv_effect:
  assumes "driver_inv v" "frames v = []" "rendered v = pr"
  shows "driver_inv (animation_effect pr i q v)"
  using assms inv_animate [OF assms(2,3), of q]
  by (simp add: effect_idle driver_inv_def)

lemma render_unfold:
  assumes "driver_inv v"
  shows "render pr audioRef (v, p) =
     (animation_effect pr (isInitialized v) 
        (snd (initialize_effect pr audioRef (isInitialized v) (v\<lparr>frames := [], rendered := pr\<rparr>, p)))
        (fst (initialize_effect pr audioRef (isInitialized v) (v\<lparr>frames := [], rendered := pr\<rparr>, p))),
      snd (initialize_effect pr audioRef (isInitialized v) (v\<lparr>frames := [], rendered := pr\<rparr>, p)))"
  by (simp add: render_def Let_def cleanup_cancels [OF assms] split_beta)

lemma inv_render:
  assumes "driver_inv v"
  shows "driver_inv (fst (render pr audioRef (v, p)))"
proof -
  define w1 where "w1 = initialize_effect pr audioRef (isInitialized v) (v\<lparr>frames := [], rendered := pr\<rparr>, p)"
  have 1: "driver_inv (fst w1)"
    unfolding w1_def using inv_cleared [OF assms, of pr] by (simp add: inv_initialize_effect)
  have 2: "frames (fst w1) = []" "rendered (fst w1) = pr"
    unfolding w1_def by (simp_all add: initialize_effect_keeps)
  show ?thesis
    unfolding render_unfold [OF assms] w1_def [symmetric]
    using inv_effect [OF 1 2] by simp
qed

lemma inv_restyle:
  assumes "driver_inv v"
  shows "driver_inv (fst (restyle pr (v, p)))"
  using inv_effect [OF inv_cleared [OF assms, of pr], of pr "isInitialized v" p]
  by (simp add: restyle_def cleanup_cancels [OF assms])

lemma inv_retarget:
  assumes "driver_inv v"
  shows "driver_inv (fst (retarget audioRef (v, p)))"
  using inv_initialize_effect [of "(v, p)"] assms by (simp add: retarget_def)

lemma unmount_cancels:
  assumes "driver_inv v"
  shows "fst (unmount (v, p)) = v\<lparr>frames := [], canvasRef := None\<rparr>"
  by (simp add: unmount_def Let_def cleanup_cancels [OF assms] cancelAnimationFrame_def)

lemma inv_unmount:
  assumes "driver_inv v"
  shows "driver_inv (fst (unmount (v, p)))"
  using assms by (simp add: unmount_cancels driver_inv_def)

lemma vis_reachable_inv: "vis_reachable w \<Longrightarrow> driver_inv (fst w)"
proof (induction rule: vis_reachable.induct)
  case (mount pr canvas_v n p)
  show ?case by (simp add: inv_mounted)
next
  case (rerender w pr audioRef)
  then show ?case using inv_render [of "fst w" pr audioRef "snd w"] by simp
next
  case (restyled w pr)
  then show ?case using inv_restyle [of "fst w" pr "snd w"] by simp
next
  case (retargeted w audioRef)
  then show ?case using inv_retarget [of "fst w" audioRef "snd w"] by simp
next
  case (frame v p)
  then show ?case by (simp add: inv_fire)
next
  case (environment v p p')
  then show ?case by simp
next
  case (unmounted w)
  then show ?case using inv_unmount [of "fst w" "snd w"] by simp
qed

lemma render_stopped:
  assumes "driver_inv v" "\<not> isPlaying pr"
  shows "render pr audioRef (v, p) = (v\<lparr>rendered := pr, frames := []\<rparr>, p)"
  using assms(2)
  by (simp add: render_unfold [OF assms(1)] initialize_effect_keeps effect_idle)

lemma render_uninitialized:
  assumes "driver_inv v" "\<not> isInitialized v"
  shows "frames (fst (render pr audioRef (v, p))) = []
     \<and> trace (fst (render pr audioRef (v, p))) = trace v"
  using assms(2)
  by (simp add: render_unfold [OF assms(1)] initialize_effect_keeps effect_idle)

lemma render_no_canvas:
  assumes "driver_inv v" "canvasRef v = None"
  shows "frames (fst (render pr audioRef (v, p))) = []
     \<and> trace (fst (render pr audioRef (v, p))) = trace v"
proof -
  define w1 where "w1 = initialize_effect pr audioRef (isInitialized v) (v\<lparr>frames := [], rendered := pr\<rparr>, p)"
  have 2: "frames (fst w1) = []" "trace (fst w1) = trace v"
    unfolding w1_def by (simp_all add: initialize_effect_keeps)
  have "canvasRef (fst w1) = None"
  proof (cases "isPlaying pr \<and> audioRef \<noteq> None")
    case False
    then show ?thesis using assms(2) by (auto simp add: w1_def initialize_effect_def)
  next
    case True
    obtain v' p' where vi: "visualizer_initialize audioRef (isInitialized v) p (v\<lparr>frames := [], rendered := pr\<rparr>) = (v', p')"
      by (cases "visualizer_initialize audioRef (isInitialized v) p (v\<lparr>frames := [], rendered := pr\<rparr>)")
    from True initialize_keeps [OF vi] assms(2) show ?thesis
      by (simp add: w1_def initialize_effect_def vi)
  qed
  then have "animate pr (snd w1) (fst w1) = fst w1"
    by (simp add: animate_not_ready ready_def)
  then show ?thesis
    unfolding render_unfold [OF assms(1)] w1_def [symmetric]
    using 2 by (simp add: effect_idle)
qed

lemma render_started:
  assumes "driver_inv v" "isPlaying pr" "isInitialized v"
    "dataArrayRef v = Some d0" "canvasRef v = Some cv"
  shows "fst (render pr audioRef (v, p)) =
     v\<lparr>rendered := pr, dataArrayRef := Some (getByteFrequencyData p d0),
       trace := trace v @ [Sampled (getByteFrequencyData p d0),
                           Rendered (draw_frame pr cv (getByteFrequencyData p d0))],
       animationRef := Some (Suc (next_frame v)),
       frames := [(Suc (next_frame v), pr)],
       next_frame := Suc (next_frame v)\<rparr>"
proof -
  from assms(1,3) obtain a where a: "analyserRef v = Some a"
    by (auto simp add: driver_inv_def)
  define w1 where "w1 = initialize_effect pr audioRef (isInitialized v) (v\<lparr>frames := [], rendered := pr\<rparr>, p)"
  have 1: "fst w1 = v\<lparr>frames := [], rendered := pr\<rparr>"
    "getByteFrequencyData (snd w1) d0 = getByteFrequencyData p d0"
    unfolding w1_def using assms(3) initialize_effect_keeps [of pr audioRef "isInitialized v" _ d0] 
    by simp_all
  show ?thesis
    unfolding render_unfold [OF assms(1)] w1_def [symmetric]
    using assms(2-5) a
    by (simp add: effect_idle 1 animate_idle [of _ a d0 cv])
qed


lemma effect_cancels:
  assumes "driver_inv v" "\<not> (isPlaying pr \<and> i)"
  shows "animation_effect pr i q v = v\<lparr>frames := []\<rparr>"
  using assms
  by (auto simp add: driver_inv_def animation_effect_def has_handle_def cancelAnimationFrame_def
      split: option.splits)

lemma render_frames:
  assumes "driver_inv v"
  shows "frames (fst (render pr audioRef (v, p))) \<noteq> [] \<longleftrightarrow>
     isPlaying pr \<and> isInitialized v \<and> canvasRef v \<noteq> None"
proof (cases "isPlaying pr \<and> isInitialized v \<and> canvasRef v \<noteq> None")
  case True
  with assms obtain d0 cv where "dataArrayRef v = Some d0" "canvasRef v = Some cv"
    by (auto simp add: driver_inv_def)
  with True show ?thesis by (simp add: render_started [OF assms])
next
  case False
  then show ?thesis
    using render_stopped [OF assms, of pr audioRef p] render_uninitialized [OF assms, of pr audioRef p]
      render_no_canvas [OF assms, of pr audioRef p]
    by auto
qed

lemma restyle_frames:
  assumes "driver_inv v"
  shows "frames (fst (restyle pr (v, p))) \<noteq> [] \<longleftrightarrow>
     isPlaying pr \<and> isInitialized v \<and> canvasRef v \<noteq> None"
proof (cases "isPlaying pr \<and> isInitialized v")
  case False
  then show ?thesis by (auto simp add: restyle_def cleanup_cancels [OF assms] effect_idle)
next
  case True
  with assms obtain a d0 where r: "analyserRef v = Some a" "dataArrayRef v = Some d0"
    by (auto simp add: driver_inv_def)
  show ?thesis
  proof (cases "canvasRef v")
    case None
    with True show ?thesis
      by (simp add: restyle_def cleanup_cancels [OF assms] effect_idle animate_not_ready ready_def)
  next
    case (Some cv)
    with True r show ?thesis
      by (simp add: restyle_def cleanup_cancels [OF assms] effect_idle animate_idle [of _ a d0 cv])
  qed
qed

lemma demo_sampled: "getByteFrequencyData visualizer_platform demo_bytes = demo_bytes"
  by (simp add: getByteFrequencyData_def write_bytes_def visualizer_platform_def demo_length)

lemma demo_mount:
  "render playing (Some 7) (mounted playing demo_canvas 0, fresh_platform) =
     (demo_visualizer, visualizer_platform)"
  by (simp add: driver_defs new_AudioContext_def createAnalyser_def
      createMediaElementSource_def connect_def destination_def frequencyBinCount_def Let_def
      fresh_platform_def mounted_def demo_visualizer_def visualizer_platform_def
      demo_analyser_def playing_def state_of_def)

lemma demo_start:
  "render playing (Some 7) (demo_visualizer, visualizer_platform) =
     (started_visualizer, visualizer_platform)"
  by (simp add: driver_defs animate_ready [of _ demo_analyser "replicate 128 0" demo_canvas] Let_def
      demo_visualizer_def started_visualizer_def playing_def visualizer_platform_def state_of_def
      getByteFrequencyData_def write_bytes_def demo_length draw_frame_def)

lemma demo_stop:
  "render stopped (Some 7) (started_visualizer, visualizer_platform) =
     (started_visualizer\<lparr>rendered := stopped, frames := []\<rparr>, visualizer_platform)"
  by (simp add: driver_defs Let_def demo_visualizer_def started_visualizer_def stopped_def)

lemma started_reachable: "vis_reachable (started_visualizer, visualizer_platform)"
proof -
  have "vis_reachable (mounted playing demo_canvas 0, fresh_platform)"
    by (rule vis_reachable.mount)
  from vis_reachable.rerender [OF vis_reachable.rerender [OF this, of playing "Some 7"], of playing "Some 7"]
  show ?thesis by (simp add: demo_mount demo_start)
qed

text \<open>C8 (as amended): in every state the component can reach, at most one frame waits; it
  is then the frame whose handle \<^verbatim>\<open>animationRef\<close> holds, it was requested by a tick of the
  latest render, and that render was playing. When it fires, the tick samples, then
  renders, then requests the next frame, again with the props of the latest render. A tick
  requests a frame if and only if the \<^verbatim>\<open>isPlaying\<close> it closed over is true, and does
  nothing when the canvas, the analyser or the data array is missing. The cleanup of the
  animation effect, and the effect itself when it does not start the animation, cancel the
  frame that waits. So a render while stopped leaves no frame and draws nothing, whatever
  happened before, and a display refresh then finds no callback to call; a render while
  playing leaves a frame if and only if the component is initialized and has its canvas,
  and then it has run one tick at once (one sample, one render) that requested this frame;
  when the hosting view goes away the frame that waits is cancelled, the canvas is gone,
  and neither a tick nor a display refresh does anything.\<close>

theorem tick_resubmits_iff_playing:
  assumes "vis_reachable (v, p)"
  shows "(frames v = [] \<or>
          (\<exists>h. h \<noteq> 0 \<and> frames v = [(h, rendered v)] \<and> animationRef v = Some h
             \<and> isPlaying (rendered v)
             \<and> analyserRef v \<noteq> None \<and> dataArrayRef v \<noteq> None \<and> canvasRef v \<noteq> None))
     \<and> (isInitialized v \<longrightarrow> analyserRef v \<noteq> None \<and> dataArrayRef v \<noteq> None)
     \<and> (frames v \<noteq> [] \<and> dataArrayRef v = Some buf \<and> canvasRef v = Some cv \<longrightarrow>
          fire_frame q v =
            v\<lparr>dataArrayRef := Some (getByteFrequencyData q buf),
              trace := trace v @ [Sampled (getByteFrequencyData q buf),
                                  Rendered (draw_frame (rendered v) cv (getByteFrequencyData q buf))],
              animationRef := Some (Suc (next_frame v)),
              frames := [(Suc (next_frame v), rendered v)],
              next_frame := Suc (next_frame v)\<rparr>)
     \<and> (frames v = [] \<longrightarrow> fire_frame q v = v)
     \<and> (analyserRef v = Some a \<and> dataArrayRef v = Some buf \<and> canvasRef v = Some cv \<longrightarrow>
          trace (animate pr q v) =
            trace v @ [Sampled (getByteFrequencyData q buf),
                       Rendered (draw_frame pr cv (getByteFrequencyData q buf))]
        \<and> frames (animate pr q v) =
            (if isPlaying pr then frames v @ [(Suc (next_frame v), pr)] else frames v)
        \<and> (isPlaying pr \<longrightarrow> animationRef (animate pr q v) = Some (Suc (next_frame v))))
     \<and> (analyserRef v = None \<or> dataArrayRef v = None \<or> canvasRef v = None \<longrightarrow>
          animate pr q v = v)
     \<and> animation_cleanup v = v\<lparr>frames := []\<rparr>
     \<and> (\<not> (isPlaying pr \<and> i) \<longrightarrow> animation_effect pr i q v = v\<lparr>frames := []\<rparr>)
     \<and> (\<not> isPlaying pr \<longrightarrow>
          render pr audioRef (v, p) = (v\<lparr>rendered := pr, frames := []\<rparr>, p))
     \<and> (frames (fst (render pr audioRef (v, p))) \<noteq> [] \<longleftrightarrow>
          isPlaying pr \<and> isInitialized v \<and> canvasRef v \<noteq> None)
     \<and> (isPlaying pr \<and> isInitialized v \<and> dataArrayRef v = Some buf \<and> canvasRef v = Some cv \<longrightarrow>
          fst (render pr audioRef (v, p)) =
            v\<lparr>rendered := pr, dataArrayRef := Some (getByteFrequencyData p buf),
              trace := trace v @ [Sampled (getByteFrequencyData p buf),
                                  Rendered (draw_frame pr cv (getByteFrequencyData p buf))],
              animationRef := Some (Suc (next_frame v)),
              frames := [(Suc (next_frame v), pr)],
              next_frame := Suc (next_frame v)\<rparr>)
     \<and> (\<not> isInitialized v \<or> canvasRef v = None \<longrightarrow>
          trace (fst (render pr audioRef (v, p))) = trace v)
     \<and> (frames (fst (restyle pr (v, p))) \<noteq> [] \<longleftrightarrow>
          isPlaying pr \<and> isInitialized v \<and> canvasRef v \<noteq> None)
     \<and> fst (unmount (v, p)) = v\<lparr>frames := [], canvasRef := None\<rparr>
     \<and> animate pr q (fst (unmount (v, p))) = fst (unmount (v, p))
     \<and> fire_frame q (fst (unmount (v, p))) = fst (unmount (v, p))"
proof -
  from vis_reachable_inv [OF assms] have iv: "driver_inv v" by simp
  have c1: "frames v = [] \<or>
          (\<exists>h. h \<noteq> 0 \<and> frames v = [(h, rendered v)] \<and> animationRef v = Some h
             \<and> isPlaying (rendered v)
             \<and> analyserRef v \<noteq> None \<and> dataArrayRef v \<noteq> None \<and> canvasRef v \<noteq> None)"
    "isInitialized v \<longrightarrow> analyserRef v \<noteq> None \<and> dataArrayRef v \<noteq> None"
    using iv by (simp_all add: driver_inv_def ready_def)
  have c2: "frames v \<noteq> [] \<and> dataArrayRef v = Some buf \<and> canvasRef v = Some cv \<longrightarrow>
          fire_frame q v =
            v\<lparr>dataArrayRef := Some (getByteFrequencyData q buf),
              trace := trace v @ [Sampled (getByteFrequencyData q buf),
                                  Rendered (draw_frame (rendered v) cv (getByteFrequencyData q buf))],
              animationRef := Some (Suc (next_frame v)),
              frames := [(Suc (next_frame v), rendered v)],
              next_frame := Suc (next_frame v)\<rparr>"
    using fire_frame_pending [OF iv] by blast
  have c3: "frames v = [] \<longrightarrow> fire_frame q v = v"
    by (simp add: fire_frame_idle)
  have c4: "analyserRef v = Some a \<and> dataArrayRef v = Some buf \<and> canvasRef v = Some cv \<longrightarrow>
          trace (animate pr q v) =
            trace v @ [Sampled (getByteFrequencyData q buf),
                       Rendered (draw_frame pr cv (getByteFrequencyData q buf))]
        \<and> frames (animate pr q v) =
            (if isPlaying pr then frames v @ [(Suc (next_frame v), pr)] else frames v)
        \<and> (isPlaying pr \<longrightarrow> animationRef (animate pr q v) = Some (Suc (next_frame v)))"
    by (simp add: animate_ready [of _ a buf cv] Let_def requestAnimationFrame_def)
  have c5: "analyserRef v = None \<or> dataArrayRef v = None \<or> canvasRef v = None \<longrightarrow>
          animate pr q v = v"
    by (auto simp add: animate_def)
  have c6: "animation_cleanup v = v\<lparr>frames := []\<rparr>"
    by (rule cleanup_cancels [OF iv])
  have c7: "\<not> (isPlaying pr \<and> i) \<longrightarrow> animation_effect pr i q v = v\<lparr>frames := []\<rparr>"
    using effect_cancels [OF iv] by blast
  have c8: "\<not> isPlaying pr \<longrightarrow>
          render pr audioRef (v, p) = (v\<lparr>rendered := pr, frames := []\<rparr>, p)"
    using render_stopped [OF iv] by blast
  have c9: "frames (fst (render pr audioRef (v, p))) \<noteq> [] \<longleftrightarrow>
          isPlaying pr \<and> isInitialized v \<and> canvasRef v \<noteq> None"
    by (rule render_frames [OF iv])
  have c10: "isPlaying pr \<and> isInitialized v \<and> dataArrayRef v = Some buf \<and> canvasRef v = Some cv \<longrightarrow>
          fst (render pr audioRef (v, p)) =
            v\<lparr>rendered := pr, dataArrayRef := Some (getByteFrequencyData p buf),
              trace := trace v @ [Sampled (getByteFrequencyData p buf),
                                  Rendered (draw_frame pr cv (getByteFrequencyData p buf))],
              animationRef := Some (Suc (next_frame v)),
              frames := [(Suc (next_frame v), pr)],
              next_frame := Suc (next_frame v)\<rparr>"
    using render_started [OF iv] by blast
  have c11: "\<not> isInitialized v \<or> canvasRef v = None \<longrightarrow>
          trace (fst (render pr audioRef (v, p))) = trace v"
    using render_uninitialized [OF iv, of pr audioRef p] render_no_canvas [OF iv, of pr audioRef p]
    by blast
  have c12: "frames (fst (restyle pr (v, p))) \<noteq> [] \<longleftrightarrow>
          isPlaying pr \<and> isInitialized v \<and> canvasRef v \<noteq> None"
    by (rule restyle_frames [OF iv])
  have c13: "fst (unmount (v, p)) = v\<lparr>frames := [], canvasRef := None\<rparr>"
    by (rule unmount_cancels [OF iv])
  have c14: "animate pr q (fst (unmount (v, p))) = fst (unmount (v, p))"
    "fire_frame q (fst (unmount (v, p))) = fst (unmount (v, p))"
    unfolding c13 by (simp_all add: animate_def fire_frame_def)
  show ?thesis
    apply (intro conjI)
    apply (rule c1(1)) apply (rule c1(2)) apply (rule c2) apply (rule c3)
    apply (rule c4) apply (rule c5) apply (rule c6) apply (rule c7) apply (rule c8)
    apply (rule c9) apply (rule c10) apply (rule c11) apply (rule c12) apply (rule c13)
    apply (rule c14(1)) apply (rule c14(2))
    done
qed


theorem tick_resubmits_iff_playing_witness:
  "vis_reachable (started_visualizer, visualizer_platform)
 \<and> frames started_visualizer = [(1, playing)] \<and> animationRef started_visualizer = Some 1
 \<and> isPlaying playing \<and> \<not> isPlaying stopped \<and> isPlaying recolored
 \<and> fire_frame visualizer_platform started_visualizer =
      started_visualizer\<lparr>
        trace := [Sampled demo_bytes, Rendered (drawBars ''#3b82f6'' 1 demo_canvas demo_bytes),
                  Sampled demo_bytes, Rendered (drawBars ''#3b82f6'' 1 demo_canvas demo_bytes)],
        animationRef := Some 2, frames := [(2, playing)], next_frame := 2\<rparr>
 \<and> animation_cleanup started_visualizer = started_visualizer\<lparr>frames := []\<rparr>
 \<and> animation_effect stopped True visualizer_platform started_visualizer =
      started_visualizer\<lparr>frames := []\<rparr>
 \<and> render stopped (Some 7) (started_visualizer, visualizer_platform) =
      (started_visualizer\<lparr>rendered := stopped, frames := []\<rparr>, visualizer_platform)
 \<and> fire_frame visualizer_platform
      (fst (render stopped (Some 7) (started_visualizer, visualizer_platform))) =
      fst (render stopped (Some 7) (started_visualizer, visualizer_platform))
 \<and> fst (render recolored (Some 7) (started_visualizer, visualizer_platform)) =
      started_visualizer\<lparr>rendered := recolored,
        trace := [Sampled demo_bytes, Rendered (drawBars ''#3b82f6'' 1 demo_canvas demo_bytes),
                  Sampled demo_bytes, Rendered (drawBars ''#ef4444'' 1 demo_canvas demo_bytes)],
        animationRef := Some 2, frames := [(2, recolored)], next_frame := 2\<rparr>
 \<and> frames (fst (render stopped (Some 7)
      (render recolored (Some 7) (started_visualizer, visualizer_platform)))) = []
 \<and> fst (unmount (started_visualizer, visualizer_platform)) =
      started_visualizer\<lparr>frames := [], canvasRef := None\<rparr>
 \<and> fire_frame visualizer_platform (fst (unmount (started_visualizer, visualizer_platform))) =
      fst (unmount (started_visualizer, visualizer_platform))"
proof -
  define w2 where "w2 = render recolored (Some 7) (started_visualizer, visualizer_platform)"
  have r1: "vis_reachable (started_visualizer, visualizer_platform)"
    by (rule started_reachable)
  have r2: "vis_reachable (fst w2, snd w2)"
    unfolding w2_def using vis_reachable.rerender [OF r1, of recolored "Some 7"] by simp
  have r3: "vis_reachable (started_visualizer\<lparr>rendered := stopped, frames := []\<rparr>, visualizer_platform)"
    using vis_reachable.rerender [OF r1, of stopped "Some 7"] by (simp add: demo_stop)
  have s: "frames started_visualizer = [(1, playing)]" "animationRef started_visualizer = Some 1"
    "dataArrayRef started_visualizer = Some demo_bytes"
    "canvasRef started_visualizer = Some demo_canvas" "isInitialized started_visualizer"
    "next_frame started_visualizer = 1" "rendered started_visualizer = playing"
    "trace started_visualizer =
       [Sampled demo_bytes, Rendered (drawBars ''#3b82f6'' 1 demo_canvas demo_bytes)]"
    by (simp_all add: started_visualizer_def demo_visualizer_def)
  have pr: "isPlaying playing" "\<not> isPlaying stopped" "isPlaying recolored"
    "draw_frame playing demo_canvas demo_bytes = drawBars ''#3b82f6'' 1 demo_canvas demo_bytes"
    "draw_frame recolored demo_canvas demo_bytes = drawBars ''#ef4444'' 1 demo_canvas demo_bytes"
    by (simp_all add: playing_def stopped_def recolored_def draw_frame_def)
  note t1 = tick_resubmits_iff_playing [OF r1, where q = visualizer_platform and pr = stopped
      and audioRef = "Some 7" and buf = demo_bytes and cv = demo_canvas and i = True]
  note t1' = tick_resubmits_iff_playing [OF r1, where pr = recolored
      and audioRef = "Some 7" and buf = demo_bytes and cv = demo_canvas]
  note t2 = tick_resubmits_iff_playing [OF r2, where pr = stopped and audioRef = "Some 7"]
  note t3 = tick_resubmits_iff_playing [OF r3, where q = visualizer_platform]
  have a: "fire_frame visualizer_platform started_visualizer =
      started_visualizer\<lparr>
        trace := [Sampled demo_bytes, Rendered (drawBars ''#3b82f6'' 1 demo_canvas demo_bytes),
                  Sampled demo_bytes, Rendered (drawBars ''#3b82f6'' 1 demo_canvas demo_bytes)],
        animationRef := Some 2, frames := [(2, playing)], next_frame := 2\<rparr>"
    using t1 [THEN conjunct2, THEN conjunct2, THEN conjunct1] by (simp add: s pr demo_sampled)
  have b: "animation_cleanup started_visualizer = started_visualizer\<lparr>frames := []\<rparr>"
    by (rule t1 [THEN conjunct2, THEN conjunct2, THEN conjunct2, THEN conjunct2, THEN conjunct2, THEN conjunct2, THEN conjunct1])
  have c: "animation_effect stopped True visualizer_platform started_visualizer =
      started_visualizer\<lparr>frames := []\<rparr>"
    using t1 [THEN conjunct2, THEN conjunct2, THEN conjunct2, THEN conjunct2, THEN conjunct2, THEN conjunct2, THEN conjunct2, THEN conjunct1] pr(2) by simp
  have d: "render stopped (Some 7) (started_visualizer, visualizer_platform) =
      (started_visualizer\<lparr>rendered := stopped, frames := []\<rparr>, visualizer_platform)"
    using t1 [THEN conjunct2, THEN conjunct2, THEN conjunct2, THEN conjunct2, THEN conjunct2, THEN conjunct2, THEN conjunct2, THEN conjunct2, THEN conjunct1] pr(2) by simp
  have e: "fire_frame visualizer_platform
      (fst (render stopped (Some 7) (started_visualizer, visualizer_platform))) =
      fst (render stopped (Some 7) (started_visualizer, visualizer_platform))"
    using t3 [THEN conjunct2, THEN conjunct2, THEN conjunct2, THEN conjunct1] by (simp add: d)
  have f: "fst (render recolored (Some 7) (started_visualizer, visualizer_platform)) =
      started_visualizer\<lparr>rendered := recolored,
        trace := [Sampled demo_bytes, Rendered (drawBars ''#3b82f6'' 1 demo_canvas demo_bytes),
                  Sampled demo_bytes, Rendered (drawBars ''#ef4444'' 1 demo_canvas demo_bytes)],
        animationRef := Some 2, frames := [(2, recolored)], next_frame := 2\<rparr>"
    using t1' [THEN conjunct2, THEN conjunct2, THEN conjunct2, THEN conjunct2, THEN conjunct2, THEN conjunct2, THEN conjunct2, THEN conjunct2, THEN conjunct2, THEN conjunct2, THEN conjunct1] by (simp add: s pr demo_sampled)
  have "render stopped (Some 7) (fst w2, snd w2) =
      ((fst w2)\<lparr>rendered := stopped, frames := []\<rparr>, snd w2)"
    using t2 [THEN conjunct2, THEN conjunct2, THEN conjunct2, THEN conjunct2, THEN conjunct2, THEN conjunct2, THEN conjunct2, THEN conjunct2, THEN conjunct1] pr(2) by simp
  then have g: "frames (fst (render stopped (Some 7)
      (render recolored (Some 7) (started_visualizer, visualizer_platform)))) = []"
    by (simp add: w2_def)
  have h: "fst (unmount (started_visualizer, visualizer_platform)) =
      started_visualizer\<lparr>frames := [], canvasRef := None\<rparr>"
    by (rule t1 [THEN conjunct2, THEN conjunct2, THEN conjunct2, THEN conjunct2, THEN conjunct2, THEN conjunct2, THEN conjunct2, THEN conjunct2, THEN conjunct2, THEN conjunct2, THEN conjunct2, THEN conjunct2, THEN conjunct2, THEN conjunct1])
  have k: "fire_frame visualizer_platform (fst (unmount (started_visualizer, visualizer_platform))) =
      fst (unmount (started_visualizer, visualizer_platform))"
    by (rule t1 [THEN conjunct2, THEN conjunct2, THEN conjunct2, THEN conjunct2, THEN conjunct2, THEN conjunct2, THEN conjunct2, THEN conjunct2, THEN conjunct2, THEN conjunct2, THEN conjunct2, THEN conjunct2, THEN conjunct2, THEN conjunct2, THEN conjunct2])
  show ?thesis
    apply (intro conjI)
    apply (rule r1) apply (rule s(1)) apply (rule s(2)) apply (rule pr(1)) apply (rule pr(2))
    apply (rule pr(3)) apply (rule a) apply (rule b) apply (rule c) apply (rule d) apply (rule e)
    apply (rule f) apply (rule g) apply (rule h) apply (rule k)
    done
qed

text \<open>Starting and then stopping playback on the idle example component, before any frame
  fires, leaves one render call in its trace: the one the effect made when playback
  started.\<close>

theorem start_then_stop_renders_once_counterexample:
  "trace demo_visualizer = [] \<and> frames demo_visualizer = []
 \<and> filter is_render
      (trace (fst (render stopped (Some 7) (render playing (Some 7) (demo_visualizer, visualizer_platform)))))
    = [Rendered (drawBars ''#3b82f6'' 1 demo_canvas demo_bytes)]"
  by (simp add: demo_start demo_stop) (simp add: demo_visualizer_def started_visualizer_def)

end
